theory Spec2Isabelle
  imports Main "HOL-Library.Sublist"
begin

section \<open>Data model of the page (src/app/page.tsx)\<close>

text \<open>
  The page is a React component. Its \<open>useState\<close> cells are the fields of the record
  \<open>page\<close>; the functions it imports from \<open>@/lib/generator\<close> and \<open>@/lib/identityData\<close> are
  not part of the file and are taken as parameters (the record \<open>lib\<close>). Whatever those
  functions read or change outside the component (the random source, the saved-identity
  store) is the abstract world \<open>'w\<close>, threaded through every call.
  Strings are byte lists; a falsy string is the empty one. Two configurations are the
  same object when they are equal. Vibration, the clipboard, the menu, the guide, the
  inbox button and the immersive mode are left out: no handler below reads them.
\<close>

record CountryConfig =
  code :: string
  name :: string

text \<open>\<open>interface UserInfo\<close>, lines 102-109.\<close>

record UserInfo =
  firstName :: string
  lastName :: string
  birthday :: string
  phone :: string
  password :: string
  email :: string

text \<open>The object literal handed to \<open>addIdentity\<close>, lines 559-568.\<close>

record SavedIdentity = UserInfo +
  countryCode :: string
  countryName :: string

text \<open>What a call of an imported function may throw.\<close>

datatype error = NotFoundError | ConfigError | InvalidDomainError | Thrown string

text \<open>
  The imports of lines 6 and 10-19. A generator returns its value or throws, and leaves a
  new world behind in both cases. \<open>getCountryConfig\<close> reads a static table: it may
  throw, return \<open>undefined\<close> (\<open>Inr None\<close>) or return a configuration. \<open>countries\<close> is
  the table itself and \<open>getAllDomains\<close> the list that \<open>getAllDomains()\<close> returns.
\<close>

record 'w lib =
  generateName :: "string \<Rightarrow> 'w \<Rightarrow> (error + string \<times> string) \<times> 'w"
  generateBirthday :: "'w \<Rightarrow> (error + string) \<times> 'w"
  generatePhone :: "CountryConfig \<Rightarrow> 'w \<Rightarrow> (error + string) \<times> 'w"
  generatePassword :: "'w \<Rightarrow> (error + string) \<times> 'w"
  generateEmail :: "string \<Rightarrow> string \<Rightarrow> string option \<Rightarrow> 'w \<Rightarrow> (error + string) \<times> 'w"
  getCountryConfig :: "string \<Rightarrow> error + CountryConfig option"
  countries :: "CountryConfig list"
  getAllDomains :: "string list"
  addIdentity :: "SavedIdentity \<Rightarrow> 'w \<Rightarrow> 'w"
  isIdentitySaved :: "string \<Rightarrow> 'w \<Rightarrow> bool"

text \<open>
  An entry of a call log: which generator was applied, and to which arguments. The log is
  written by the generators themselves once they are wrapped by \<open>logged\<close> below; no
  handler writes it.
\<close>

datatype call =
  CallName string
  | CallBirthday
  | CallPhone CountryConfig
  | CallPassword
  | CallEmail string string "string option"

datatype save_status = SaveIdle | Saving | Saved

text \<open>
  Callbacks handed to the browser and not yet run. Each one carries the values its closure
  captured at the render that created it.
\<close>

datatype task =
  IdleGenerate CountryConfig string
  | SaveTimer UserInfo CountryConfig
  | SaveResetTimer

text \<open>
  The state cells of \<open>GlassStylePage\<close> (lines 473-489) that the modelled handlers touch,
  followed by the environment: the callbacks pending in the browser, what
  \<open>console.error\<close> received, and the world.
\<close>

record 'w page =
  selectedCountry :: CountryConfig
  selectedDomain :: string
  userInfo :: UserInfo
  showCountrySheet :: bool
  showDomainSheet :: bool
  ipInfo :: "string \<times> string"
  isInitialized :: bool
  copiedField :: "string option"
  saveStatus :: save_status
  isSaved :: bool
  isGenerating :: bool
  pending :: "task list"
  console :: "error list"
  world :: 'w

text \<open>The initial values of the \<open>useState\<close> calls; \<open>c0\<close> is \<open>countries[0]\<close>.\<close>

definition emptyUserInfo :: UserInfo where
  "emptyUserInfo =
     \<lparr>firstName = [], lastName = [], birthday = [], phone = [], password = [], email = []\<rparr>"

definition initial_page :: "CountryConfig \<Rightarrow> 'w \<Rightarrow> 'w page" where
  "initial_page c0 w =
     \<lparr>selectedCountry = c0, selectedDomain = ''random'', userInfo = emptyUserInfo,
      showCountrySheet = False, showDomainSheet = False, ipInfo = (''...'', ''US''),
      isInitialized = False, copiedField = None, saveStatus = SaveIdle, isSaved = False,
      isGenerating = False, pending = [], console = [], world = w\<rparr>"

section \<open>Composition of one identity\<close>

text \<open>Lines 541 and 646.\<close>

definition customDomain :: "string \<Rightarrow> string option" where
  "customDomain d = (if d = ''random'' then None else Some d)"

text \<open>
  The statements of the \<open>try\<close> blocks at lines 537-543 and 642-648, which are the same:
  five calls in sequence, the first throw ends the block. The result is the record that
  would be given to \<open>setUserInfo\<close>, or the thrown error, and the world after the last
  call made.
\<close>

definition generation_body ::
  "'w lib \<Rightarrow> CountryConfig \<Rightarrow> string \<Rightarrow> 'w \<Rightarrow> (error + UserInfo) \<times> 'w" where
  "generation_body g c d w0 =
     (case generateName g (code c) w0 of
        (Inl e, w1) \<Rightarrow> (Inl e, w1)
      | (Inr (fn, ln), w1) \<Rightarrow>
     (case generateBirthday g w1 of
        (Inl e, w2) \<Rightarrow> (Inl e, w2)
      | (Inr b, w2) \<Rightarrow>
     (case generatePhone g c w2 of
        (Inl e, w3) \<Rightarrow> (Inl e, w3)
      | (Inr ph, w3) \<Rightarrow>
     (case generatePassword g w3 of
        (Inl e, w4) \<Rightarrow> (Inl e, w4)
      | (Inr pw, w4) \<Rightarrow>
     (case generateEmail g fn ln (customDomain d) w4 of
        (Inl e, w5) \<Rightarrow> (Inl e, w5)
      | (Inr em, w5) \<Rightarrow>
          (Inr \<lparr>firstName = fn, lastName = ln, birthday = b, phone = ph, password = pw,
                email = em\<rparr>, w5))))))"

text \<open>The two components of what the block leaves behind.\<close>

definition outcome :: "'w lib \<Rightarrow> CountryConfig \<Rightarrow> string \<Rightarrow> 'w \<Rightarrow> error + UserInfo" where
  "outcome g c d w = fst (generation_body g c d w)"

definition world_after :: "'w lib \<Rightarrow> CountryConfig \<Rightarrow> string \<Rightarrow> 'w \<Rightarrow> 'w" where
  "world_after g c d w = snd (generation_body g c d w)"

section \<open>Observing the calls\<close>

text \<open>
  To say which generators a block invokes, how often and with which arguments, the
  imported functions are wrapped: \<open>logged g\<close> behaves as \<open>g\<close> on the first component of
  the world and, each time one of the five generators is applied, appends to the second
  component the entry for that generator with the arguments the application received.
  The log is therefore a fact about the applications the block performs, whatever the
  block is.
\<close>

definition logged :: "'w lib \<Rightarrow> ('w \<times> call list) lib" where
  "logged g =
     \<lparr>generateName = (\<lambda>k (w, l).
        case generateName g k w of (r, w') \<Rightarrow> (r, (w', l @ [CallName k]))),
      generateBirthday = (\<lambda>(w, l).
        case generateBirthday g w of (r, w') \<Rightarrow> (r, (w', l @ [CallBirthday]))),
      generatePhone = (\<lambda>c (w, l).
        case generatePhone g c w of (r, w') \<Rightarrow> (r, (w', l @ [CallPhone c]))),
      generatePassword = (\<lambda>(w, l).
        case generatePassword g w of (r, w') \<Rightarrow> (r, (w', l @ [CallPassword]))),
      generateEmail = (\<lambda>fn ln x (w, l).
        case generateEmail g fn ln x w of (r, w') \<Rightarrow> (r, (w', l @ [CallEmail fn ln x]))),
      getCountryConfig = getCountryConfig g,
      countries = countries g,
      getAllDomains = getAllDomains g,
      addIdentity = (\<lambda>i (w, l). (addIdentity g i w, l)),
      isIdentitySaved = (\<lambda>e (w, l). isIdentitySaved g e w)\<rparr>"

text \<open>The calls that the block of lines 537-543 performs, in the order it performs them.\<close>

definition calls_made :: "'w lib \<Rightarrow> CountryConfig \<Rightarrow> string \<Rightarrow> 'w \<Rightarrow> call list" where
  "calls_made g c d w = snd (world_after (logged g) c d (w, []))"

section \<open>Handlers and callbacks\<close>

text \<open>
  \<open>generate\<close>, lines 527-550, up to the call of \<open>requestIdleCallback\<close>. The first
  argument is the render whose closure the handler belongs to (it supplies
  \<open>selectedCountry\<close> and \<open>selectedDomain\<close>), the second the state the updates apply to.
\<close>

definition generate :: "'w page \<Rightarrow> 'w page \<Rightarrow> 'w page" where
  "generate cl s =
     s\<lparr>isGenerating := True, copiedField := None, saveStatus := SaveIdle, isSaved := False,
       pending := pending s @ [IdleGenerate (selectedCountry cl) (selectedDomain cl)]\<rparr>"

text \<open>The callback given to \<open>requestIdleCallback\<close>, lines 535-549.\<close>

definition idle_callback :: "'w lib \<Rightarrow> CountryConfig \<Rightarrow> string \<Rightarrow> 'w page \<Rightarrow> 'w page" where
  "idle_callback g c d s =
     (case generation_body g c d (world s) of
        (Inr r, w) \<Rightarrow> s\<lparr>userInfo := r, world := w, isGenerating := False\<rparr>
      | (Inl e, w) \<Rightarrow> s\<lparr>console := console s @ [e], world := w, isGenerating := False\<rparr>)"

text \<open>\<open>handleSaveIdentity\<close>, lines 552-557, up to the call of \<open>setTimeout\<close>.\<close>

definition handleSaveIdentity :: "'w page \<Rightarrow> 'w page" where
  "handleSaveIdentity s =
     (if saveStatus s = Saving \<or> isSaved s \<or> email (userInfo s) = [] then s
      else s\<lparr>saveStatus := Saving,
             pending := pending s @ [SaveTimer (userInfo s) (selectedCountry s)]\<rparr>)"

definition savedIdentity :: "UserInfo \<Rightarrow> CountryConfig \<Rightarrow> SavedIdentity" where
  "savedIdentity u c =
     \<lparr>firstName = firstName u, lastName = lastName u, birthday = birthday u,
      phone = phone u, password = password u, email = email u,
      countryCode = code c, countryName = name c\<rparr>"

text \<open>
  The timer callback of lines 558-577. \<open>addIdentity\<close> is taken not to throw. The
  two-second timer replaces the one \<open>saveTimerRef\<close> still holds.
\<close>

definition save_timer :: "'w lib \<Rightarrow> UserInfo \<Rightarrow> CountryConfig \<Rightarrow> 'w page \<Rightarrow> 'w page" where
  "save_timer g u c s =
     s\<lparr>world := addIdentity g (savedIdentity u c) (world s),
       saveStatus := Saved, isSaved := True,
       pending := filter (\<lambda>t. t \<noteq> SaveResetTimer) (pending s) @ [SaveResetTimer]\<rparr>"

text \<open>Lines 574-576.\<close>

definition save_reset :: "'w page \<Rightarrow> 'w page" where
  "save_reset s = s\<lparr>saveStatus := SaveIdle\<rparr>"

text \<open>Lines 662-672 and 683-691.\<close>

definition handleCountrySelect :: "CountryConfig \<Rightarrow> 'w page \<Rightarrow> 'w page" where
  "handleCountrySelect c s = s\<lparr>selectedCountry := c, showCountrySheet := False\<rparr>"

definition handleDomainSelect :: "string \<Rightarrow> 'w page \<Rightarrow> 'w page" where
  "handleDomainSelect d s = s\<lparr>selectedDomain := d, showDomainSheet := False\<rparr>"

definition handleOpenCountrySheet :: "'w page \<Rightarrow> 'w page" where
  "handleOpenCountrySheet s = s\<lparr>showCountrySheet := True\<rparr>"

definition handleOpenDomainSheet :: "'w page \<Rightarrow> 'w page" where
  "handleOpenDomainSheet s = s\<lparr>showDomainSheet := True\<rparr>"

section \<open>Initialisation\<close>

text \<open>
  The JSON body of \<open>/api/ip-info\<close> as far as \<open>initializeApp\<close> reads it; an absent field
  is \<open>None\<close>. \<open>FetchRejected\<close> stands for every way of reaching the \<open>catch\<close> block before
  a field of the body is used: the three-second timeout, a rejected \<open>fetch\<close>, a body
  that is not a JSON object.
\<close>

record ip_data =
  ip :: "string option"
  country :: "string option"
  accurate :: bool

datatype fetch_result = FetchRejected | FetchData ip_data

text \<open>The labels of lines 615 and 623, as UTF-8 bytes.\<close>

definition label_unknown :: string where
  "label_unknown = map char_of [0xE6, 0x9C, 0xAA, 0xE7, 0x9F, 0xA5 :: nat]"

definition label_failed :: string where
  "label_failed =
     map char_of [0xE6, 0xA3, 0x80, 0xE6, 0xB5, 0x8B, 0xE5, 0xA4, 0xB1, 0xE8, 0xB4, 0xA5 :: nat]"

text \<open>\<open>x || y\<close> on a string that may be absent.\<close>

definition or_else :: "string option \<Rightarrow> string \<Rightarrow> string" where
  "or_else x y = (case x of None \<Rightarrow> y | Some v \<Rightarrow> if v = [] then y else v)"

text \<open>
  \<open>initializeApp\<close>, lines 600-630, from the point where the race of line 606 is decided.
  \<open>isMounted\<close> is the flag of line 599 at that point.
\<close>

definition initializeApp :: "'w lib \<Rightarrow> bool \<Rightarrow> fetch_result \<Rightarrow> 'w page \<Rightarrow> 'w page" where
  "initializeApp g isMounted res s =
     (let caught = (if isMounted then s\<lparr>ipInfo := (label_failed, ''US'')\<rparr> else s);
          s1 =
            (case res of
               FetchRejected \<Rightarrow> caught
             | FetchData data \<Rightarrow>
                 if \<not> isMounted then s
                 else
                   let s2 = s\<lparr>ipInfo := (or_else (ip data) label_unknown,
                                          or_else (country data) ''US'')\<rparr>
                   in (case country data of
                         None \<Rightarrow> s2
                       | Some k \<Rightarrow>
                           if k \<noteq> [] \<and> accurate data then
                             (case getCountryConfig g k of
                                Inl e \<Rightarrow> s2\<lparr>ipInfo := (label_failed, ''US'')\<rparr>
                              | Inr None \<Rightarrow> s2
                              | Inr (Some detectedCountry) \<Rightarrow>
                                  s2\<lparr>selectedCountry := detectedCountry\<rparr>)
                           else s2))
      in if isMounted then s1\<lparr>isInitialized := True\<rparr> else s1)"

section \<open>Effects\<close>

text \<open>
  An effect runs after a render when one of its dependencies differs from the previous
  render. It reads the state of the render it belongs to (\<open>cl\<close>) and its updates apply to
  the state accumulated so far (\<open>s\<close>).
\<close>

text \<open>Lines 580-584. \<open>isIdentitySaved\<close> is taken not to throw.\<close>

definition effect_isSaved :: "'w lib \<Rightarrow> 'w page \<Rightarrow> 'w page \<Rightarrow> 'w page" where
  "effect_isSaved g cl s =
     (if email (userInfo cl) \<noteq> []
      then s\<lparr>isSaved := isIdentitySaved g (email (userInfo cl)) (world s)\<rparr> else s)"

text \<open>Lines 639-653.\<close>

definition effect_initial_generation :: "'w lib \<Rightarrow> 'w page \<Rightarrow> 'w page \<Rightarrow> 'w page" where
  "effect_initial_generation g cl s =
     (if isInitialized cl \<and> firstName (userInfo cl) = [] then
        (case generation_body g (selectedCountry cl) (selectedDomain cl) (world s) of
           (Inr r, w) \<Rightarrow> s\<lparr>userInfo := r, world := w\<rparr>
         | (Inl e, w) \<Rightarrow> s\<lparr>console := console s @ [e], world := w\<rparr>)
      else s)"

text \<open>Lines 655-657.\<close>

definition effect_country_change :: "'w page \<Rightarrow> 'w page \<Rightarrow> 'w page" where
  "effect_country_change cl s =
     (if isInitialized cl \<and> firstName (userInfo cl) \<noteq> [] then generate cl s else s)"

text \<open>
  One commit: the effects whose dependency arrays (lines 584, 653, 657) changed between
  the renders \<open>prev\<close> and \<open>cur\<close> run in the order of their declaration.
\<close>

definition effects_round :: "'w lib \<Rightarrow> 'w page \<Rightarrow> 'w page \<Rightarrow> 'w page" where
  "effects_round g prev cur =
     (let s1 = (if email (userInfo prev) \<noteq> email (userInfo cur)
                then effect_isSaved g cur cur else cur);
          s2 = (if isInitialized prev \<noteq> isInitialized cur
                   \<or> firstName (userInfo prev) \<noteq> firstName (userInfo cur)
                   \<or> selectedCountry prev \<noteq> selectedCountry cur
                   \<or> selectedDomain prev \<noteq> selectedDomain cur
                then effect_initial_generation g cur s1 else s1)
      in if code (selectedCountry prev) \<noteq> code (selectedCountry cur)
         then effect_country_change cur s2 else s2)"

text \<open>Renders and commits repeat while effects change the state; \<open>n\<close> bounds the rounds.\<close>

fun settle :: "nat \<Rightarrow> 'w lib \<Rightarrow> 'w page \<Rightarrow> 'w page \<Rightarrow> 'w page" where
  "settle 0 g prev cur = cur"
| "settle (Suc n) g prev cur = settle n g cur (effects_round g prev cur)"

section \<open>Events\<close>

text \<open>
  What can happen to a mounted page: a generation request, a save request, the opening
  of one of the two sheets, a selection in an open sheet, the end of \<open>initializeApp\<close>
  with the flag \<open>isMounted\<close> and the answer of the request, and the browser running a
  pending callback. The effects of the first render change nothing (\<open>isInitialized\<close> is
  false and the record is empty) apart from starting \<open>initializeApp\<close>, so a history
  starts at \<open>initial_page\<close>. Closing a sheet without a selection is left out.
\<close>

datatype event =
  ClickGenerate
  | ClickSave
  | OpenCountrySheet
  | OpenDomainSheet
  | SelectCountry CountryConfig
  | SelectDomain string
  | InitDone bool fetch_result
  | Fire task

definition run_task :: "'w lib \<Rightarrow> task \<Rightarrow> 'w page \<Rightarrow> 'w page" where
  "run_task g t s =
     (case t of
        IdleGenerate c d \<Rightarrow> idle_callback g c d s
      | SaveTimer u c \<Rightarrow> save_timer g u c s
      | SaveResetTimer \<Rightarrow> save_reset s)"

text \<open>The handler of an event alone; a callback runs only if it is pending, and once.\<close>

definition handle :: "'w lib \<Rightarrow> event \<Rightarrow> 'w page \<Rightarrow> 'w page" where
  "handle g ev s =
     (case ev of
        ClickGenerate \<Rightarrow> generate s s
      | ClickSave \<Rightarrow> handleSaveIdentity s
      | OpenCountrySheet \<Rightarrow> handleOpenCountrySheet s
      | OpenDomainSheet \<Rightarrow> handleOpenDomainSheet s
      | SelectCountry c \<Rightarrow> handleCountrySelect c s
      | SelectDomain d \<Rightarrow> handleDomainSelect d s
      | InitDone m res \<Rightarrow> initializeApp g m res s
      | Fire t \<Rightarrow>
          if t \<in> set (pending s) then run_task g t (s\<lparr>pending := remove1 t (pending s)\<rparr>)
          else s)"

text \<open>The handler, then the effects until they are quiet (two rounds are enough).\<close>

definition step :: "'w lib \<Rightarrow> event \<Rightarrow> 'w page \<Rightarrow> 'w page" where
  "step g ev s = settle 2 g s (handle g ev s)"

fun run :: "'w lib \<Rightarrow> event list \<Rightarrow> 'w page \<Rightarrow> 'w page" where
  "run g [] s = s"
| "run g (ev # evs) s = run g evs (step g ev s)"

text \<open>
  When the page offers an event. The shortcuts of lines 719-728 reach \<open>generate\<close> and
  \<open>handleSaveIdentity\<close> in every state. The two buttons that open the sheets (lines 918
  and 935) are rendered in the branch of line 787 only, once \<open>isInitialized\<close> holds. A
  sheet renders its list only while it is open (line 212); the country list offers the
  entries of \<open>countries\<close>, the domain list the item \<open>random\<close> and entries of the list of
  \<open>getAllDomains()\<close>. \<open>initializeApp\<close> ends once. The browser runs a callback it holds.
\<close>

definition offered :: "'w lib \<Rightarrow> event \<Rightarrow> 'w page \<Rightarrow> bool" where
  "offered g ev s =
     (case ev of
        ClickGenerate \<Rightarrow> True
      | ClickSave \<Rightarrow> True
      | OpenCountrySheet \<Rightarrow> isInitialized s
      | OpenDomainSheet \<Rightarrow> isInitialized s
      | SelectCountry c \<Rightarrow> showCountrySheet s \<and> c \<in> set (countries g)
      | SelectDomain d \<Rightarrow> showDomainSheet s \<and> (d = ''random'' \<or> d \<in> set (getAllDomains g))
      | InitDone m res \<Rightarrow> \<not> isInitialized s
      | Fire t \<Rightarrow> t \<in> set (pending s))"

text \<open>A history the page can go through: every event is offered when it happens.\<close>

fun feasible :: "'w lib \<Rightarrow> event list \<Rightarrow> 'w page \<Rightarrow> bool" where
  "feasible g [] s = True"
| "feasible g (ev # evs) s = (offered g ev s \<and> feasible g evs (step g ev s))"

section \<open>The domain list (\<open>DomainList\<close>, lines 330-469)\<close>

text \<open>
  Here a string is the list of its code units, of any type \<open>'u\<close>.
  \<open>String.prototype.toLowerCase\<close> belongs to the runtime and folds every cased letter
  of Unicode; it is a parameter, \<open>lower\<close>, of the two functions below, which make no
  assumption about it.
\<close>

text \<open>\<open>String.prototype.includes\<close>: the second string occurs in the first.\<close>

fun includes_str :: "'u list \<Rightarrow> 'u list \<Rightarrow> bool" where
  "includes_str [] q = (q = [])"
| "includes_str (x # xs) q = (prefix q (x # xs) \<or> includes_str xs q)"

text \<open>Lines 358-362.\<close>

definition filteredDomains ::
  "('u list \<Rightarrow> 'u list) \<Rightarrow> 'u list list \<Rightarrow> 'u list \<Rightarrow> 'u list list" where
  "filteredDomains lower allDomains filteredQuery =
     (if filteredQuery = [] then allDomains
      else let query = lower filteredQuery
           in filter (\<lambda>d. includes_str (lower d) query) allDomains)"

text \<open>Lines 364-366; \<open>visibleCount\<close> is never negative.\<close>

definition visibleDomains ::
  "('u list \<Rightarrow> 'u list) \<Rightarrow> 'u list list \<Rightarrow> 'u list \<Rightarrow> nat \<Rightarrow> 'u list list" where
  "visibleDomains lower allDomains filteredQuery visibleCount =
     take visibleCount (filteredDomains lower allDomains filteredQuery)"

section \<open>The Engine as the specification describes it\<close>

text \<open>
  Modelled from the spec: the Country Registry's \<open>lookup(code)\<close>. The function the page
  imports for it, \<open>getCountryConfig\<close> of \<open>@/lib/generator\<close>, is not among the sources.
  The spec: \<open>lookup(code) -> CountryConfig | not-found\<close>, which fails with
  \<open>NotFoundError\<close> when \<open>code\<close> matches no entry; codes are unique across the registry.
\<close>

definition lookup :: "CountryConfig list \<Rightarrow> string \<Rightarrow> error + CountryConfig option" where
  "lookup registry k =
     (case find (\<lambda>c. code c = k) registry of
        None \<Rightarrow> Inl NotFoundError
      | Some c \<Rightarrow> Inr (Some c))"









text \<open>
  The spec's wording of the search: a domain is listed when it contains the query
  case-insensitively, that is, when the query occurs in the domain once the case of both
  has been folded by \<open>lower\<close>.
\<close>

definition contains_ci :: "('u list \<Rightarrow> 'u list) \<Rightarrow> 'u list \<Rightarrow> 'u list \<Rightarrow> bool" where
  "contains_ci lower d q = sublist (lower q) (lower d)"

section \<open>Concrete collaborators for the examples\<close>

text \<open>
  A small instance of the imported functions. The world is a counter standing for the
  random source and the list of stored e-mail addresses, the latest first. The name
  generator throws for the country code \<open>ZZ\<close>, the e-mail composer for an explicit domain
  without a dot, and the country lookup returns \<open>undefined\<close> for a code that is not in
  the table.
\<close>

definition demo_countries :: "CountryConfig list" where
  "demo_countries =
     [\<lparr>code = ''US'', name = ''United States''\<rparr>, \<lparr>code = ''DE'', name = ''Germany''\<rparr>]"

definition demo_lib :: "(nat \<times> string list) lib" where
  "demo_lib =
     \<lparr>generateName = (\<lambda>k (n, st).
        (if k = ''ZZ'' then Inl ConfigError else Inr (''Ann'', ''Lee''), (Suc n, st))),
      generateBirthday = (\<lambda>(n, st). (Inr ''1990-01-01'', (Suc n, st))),
      generatePhone = (\<lambda>c (n, st). (Inr ''+1 555 0100'', (Suc n, st))),
      generatePassword = (\<lambda>(n, st). (Inr ''Pw1!'', (Suc n, st))),
      generateEmail = (\<lambda>fn ln dom (n, st).
        (case dom of
           None \<Rightarrow> Inr ''annlee@yopmail.com''
         | Some x \<Rightarrow> if CHR ''.'' \<in> set x then Inr (''annlee@'' @ x)
                     else Inl InvalidDomainError,
         (Suc n, st))),
      getCountryConfig = (\<lambda>k. Inr (find (\<lambda>c. code c = k) demo_countries)),
      countries = demo_countries,
      getAllDomains = [''yopmail.com'', ''example.com''],
      addIdentity = (\<lambda>i (n, st). (n, email i # st)),
      isIdentitySaved = (\<lambda>e (n, st). e \<in> set st)\<rparr>"

definition us :: CountryConfig where
  "us = \<lparr>code = ''US'', name = ''United States''\<rparr>"

definition de :: CountryConfig where
  "de = \<lparr>code = ''DE'', name = ''Germany''\<rparr>"

definition zz :: CountryConfig where
  "zz = \<lparr>code = ''ZZ'', name = ''Nowhere''\<rparr>"

definition demo_record :: UserInfo where
  "demo_record =
     \<lparr>firstName = ''Ann'', lastName = ''Lee'', birthday = ''1990-01-01'',
      phone = ''+1 555 0100'', password = ''Pw1!'', email = ''annlee@yopmail.com''\<rparr>"

text \<open>The page right after mounting, and an initialised page that shows a record.\<close>

definition demo_start :: "(nat \<times> string list) page" where
  "demo_start = initial_page us (0, [])"

definition demo_page :: "(nat \<times> string list) page" where
  "demo_page = (initial_page us (5, []))\<lparr>isInitialized := True, userInfo := demo_record\<rparr>"

text \<open>The same imports with a password generator that throws.\<close>

definition no_password_lib :: "(nat \<times> string list) lib" where
  "no_password_lib =
     demo_lib\<lparr>generatePassword := (\<lambda>(n, st). (Inl (Thrown ''no entropy''), (Suc n, st)))\<rparr>"

text \<open>
  The same imports with a name generator that throws on the first draw of the random
  source only, and with one that returns a single name, the first name being empty.
\<close>

definition flaky_lib :: "(nat \<times> string list) lib" where
  "flaky_lib =
     demo_lib\<lparr>generateName := (\<lambda>k (n, st).
       (if n = 0 then Inl (Thrown ''not ready'') else Inr (''Ann'', ''Lee''), (Suc n, st)))\<rparr>"

definition mononym_lib :: "(nat \<times> string list) lib" where
  "mononym_lib =
     demo_lib\<lparr>generateName := (\<lambda>k (n, st). (Inr ([], ''Suharto''), (Suc n, st)))\<rparr>"


text \<open>
  A case folding on code units given as numbers: the letters A-Z and the capital
  letters of Latin-1 (U+00C0 to U+00DE without the multiplication sign) go to their
  small letters, 32 further.
\<close>

definition latin1_lower :: "nat list \<Rightarrow> nat list" where
  "latin1_lower =
     map (\<lambda>u. if (65 \<le> u \<and> u \<le> 90) \<or> (192 \<le> u \<and> u \<le> 222 \<and> u \<noteq> 215) then u + 32 else u)"

section \<open>Facts about the effects\<close>

lemmas effect_defs = effects_round_def effect_isSaved_def effect_initial_generation_def
  effect_country_change_def generate_def Let_def

lemma effects_round_quiet:
  assumes "email (userInfo prev) = email (userInfo cur)"
    and "firstName (userInfo prev) = firstName (userInfo cur)"
    and "isInitialized prev = isInitialized cur"
    and "selectedCountry prev = selectedCountry cur"
    and "selectedDomain prev = selectedDomain cur"
  shows "effects_round g prev cur = cur"
  using assms by (simp add: effects_round_def)

lemma effects_round_frame:
  "selectedCountry (effects_round g prev cur) = selectedCountry cur"
  "selectedDomain (effects_round g prev cur) = selectedDomain cur"
  "isInitialized (effects_round g prev cur) = isInitialized cur"
  by (auto simp: effect_defs split: prod.splits sum.splits)

lemma effects_round_userInfo:
  "userInfo (effects_round g prev cur) \<noteq> userInfo cur \<Longrightarrow>
     isInitialized cur \<and> firstName (userInfo cur) = []"
  by (auto simp: effect_defs split: prod.splits sum.splits if_splits)

lemma effects_round_same_code:
  assumes "code (selectedCountry prev) = code (selectedCountry cur)"
  shows "isGenerating (effects_round g prev cur) = isGenerating cur"
    and "pending (effects_round g prev cur) = pending cur"
    and "saveStatus (effects_round g prev cur) = saveStatus cur"
    and "copiedField (effects_round g prev cur) = copiedField cur"
  using assms by (auto simp: effect_defs split: prod.splits sum.splits)

text \<open>
  The second round of effects leaves the record alone: the only effect that writes it
  runs on an empty \<open>firstName\<close>, and a first round that changed \<open>firstName\<close> made it
  non-empty.
\<close>

lemma effects_round_second_userInfo:
  "userInfo (effects_round g cur (effects_round g prev cur))
     = userInfo (effects_round g prev cur)"
proof (cases "firstName (userInfo (effects_round g prev cur)) = firstName (userInfo cur)")
  case True
  then show ?thesis
    by (auto simp: effects_round_def[of g cur] effects_round_frame effect_isSaved_def
          effect_initial_generation_def effect_country_change_def generate_def Let_def
        split: prod.splits sum.splits)
next
  case False
  then have "userInfo (effects_round g prev cur) \<noteq> userInfo cur" by auto
  then have "firstName (userInfo cur) = []" using effects_round_userInfo by blast
  with False have "firstName (userInfo (effects_round g prev cur)) \<noteq> []" by simp
  then show ?thesis
    by (auto simp: effects_round_def[of g cur] effects_round_frame effect_isSaved_def
          effect_initial_generation_def effect_country_change_def generate_def Let_def
        split: prod.splits sum.splits)
qed

lemma effects_round_world:
  "world (effects_round g prev cur) \<noteq> world cur \<Longrightarrow>
     isInitialized cur \<and> firstName (userInfo cur) = []"
  by (auto simp: effect_defs split: prod.splits sum.splits if_splits)

lemma effects_round_second_world:
  "world (effects_round g cur (effects_round g prev cur)) = world (effects_round g prev cur)"
proof (cases "firstName (userInfo (effects_round g prev cur)) = firstName (userInfo cur)")
  case True
  then show ?thesis
    by (auto simp: effects_round_def[of g cur] effects_round_frame effect_isSaved_def
          effect_initial_generation_def effect_country_change_def generate_def Let_def
        split: prod.splits sum.splits)
next
  case False
  then have "userInfo (effects_round g prev cur) \<noteq> userInfo cur" by auto
  then have "firstName (userInfo cur) = []" using effects_round_userInfo by blast
  with False have "firstName (userInfo (effects_round g prev cur)) \<noteq> []" by simp
  then show ?thesis
    by (auto simp: effects_round_def[of g cur] effects_round_frame effect_isSaved_def
          effect_initial_generation_def effect_country_change_def generate_def Let_def
        split: prod.splits sum.splits)
qed

text \<open>After two rounds no dependency differs any more, so further rounds do nothing.\<close>

lemma effects_round_third:
  "effects_round g (effects_round g prev cur)
      (effects_round g cur (effects_round g prev cur))
     = effects_round g cur (effects_round g prev cur)"
  by (rule effects_round_quiet)
     (simp_all add: effects_round_second_userInfo effects_round_frame)

lemma settle_quiet: "effects_round g a b = b \<Longrightarrow> settle n g a b = b"
proof (induction n arbitrary: a)
  case 0
  show ?case by simp
next
  case (Suc n)
  have "effects_round g b b = b" by (simp add: effects_round_def)
  with Suc show ?case by simp
qed

lemma settle_two_rounds_enough: "settle (Suc (Suc n)) g prev cur = settle 2 g prev cur"
  by (simp add: numeral_2_eq_2 settle_quiet effects_round_third)

lemma step_unfold:
  "step g ev s = effects_round g (handle g ev s) (effects_round g s (handle g ev s))"
  by (simp add: step_def numeral_2_eq_2)

lemma step_frame:
  "selectedCountry (step g ev s) = selectedCountry (handle g ev s)"
  "selectedDomain (step g ev s) = selectedDomain (handle g ev s)"
  "isInitialized (step g ev s) = isInitialized (handle g ev s)"
  by (simp_all add: step_unfold effects_round_frame)

lemma step_quiet:
  assumes "userInfo (handle g ev s) = userInfo s"
    and "isInitialized (handle g ev s) = isInitialized s"
    and "selectedCountry (handle g ev s) = selectedCountry s"
    and "selectedDomain (handle g ev s) = selectedDomain s"
  shows "step g ev s = handle g ev s"
  using assms by (simp add: step_unfold effects_round_quiet)

lemma step_same_code:
  assumes "code (selectedCountry (handle g ev s)) = code (selectedCountry s)"
  shows "isGenerating (step g ev s) = isGenerating (handle g ev s)"
    and "pending (step g ev s) = pending (handle g ev s)"
    and "saveStatus (step g ev s) = saveStatus (handle g ev s)"
  using assms by (simp_all add: step_unfold effects_round_same_code effects_round_frame)

lemma idle_callback_frame:
  "selectedCountry (idle_callback g c d s) = selectedCountry s"
  "selectedDomain (idle_callback g c d s) = selectedDomain s"
  "isInitialized (idle_callback g c d s) = isInitialized s"
  "pending (idle_callback g c d s) = pending s"
  "isGenerating (idle_callback g c d s) = False"
  by (auto simp: idle_callback_def split: prod.splits sum.splits)

section \<open>Facts about the composition\<close>

text \<open>What the block returns, by the generator that throws first, if any.\<close>

lemma body_throw_name:
  "generateName g (code c) w = (Inl e, w1) \<Longrightarrow> generation_body g c d w = (Inl e, w1)"
  by (simp add: generation_body_def)

lemma body_throw_birthday:
  "generateName g (code c) w = (Inr (fn, ln), w1) \<Longrightarrow> generateBirthday g w1 = (Inl e, w2) \<Longrightarrow>
     generation_body g c d w = (Inl e, w2)"
  by (simp add: generation_body_def)

lemma body_throw_phone:
  "generateName g (code c) w = (Inr (fn, ln), w1) \<Longrightarrow> generateBirthday g w1 = (Inr b, w2) \<Longrightarrow>
   generatePhone g c w2 = (Inl e, w3) \<Longrightarrow>
     generation_body g c d w = (Inl e, w3)"
  by (simp add: generation_body_def)

lemma body_throw_password:
  "generateName g (code c) w = (Inr (fn, ln), w1) \<Longrightarrow> generateBirthday g w1 = (Inr b, w2) \<Longrightarrow>
   generatePhone g c w2 = (Inr ph, w3) \<Longrightarrow> generatePassword g w3 = (Inl e, w4) \<Longrightarrow>
     generation_body g c d w = (Inl e, w4)"
  by (simp add: generation_body_def)

lemma body_reaches_email:
  "generateName g (code c) w = (Inr (fn, ln), w1) \<Longrightarrow> generateBirthday g w1 = (Inr b, w2) \<Longrightarrow>
   generatePhone g c w2 = (Inr ph, w3) \<Longrightarrow> generatePassword g w3 = (Inr pw, w4) \<Longrightarrow>
     generation_body g c d w =
       (case generateEmail g fn ln (if d = ''random'' then None else Some d) w4 of
          (Inl e, w5) \<Rightarrow> (Inl e, w5)
        | (Inr em, w5) \<Rightarrow>
            (Inr \<lparr>firstName = fn, lastName = ln, birthday = b, phone = ph, password = pw,
                  email = em\<rparr>, w5))"
  by (simp add: generation_body_def customDomain_def)

lemma body_throw_email:
  "generateName g (code c) w = (Inr (fn, ln), w1) \<Longrightarrow> generateBirthday g w1 = (Inr b, w2) \<Longrightarrow>
   generatePhone g c w2 = (Inr ph, w3) \<Longrightarrow> generatePassword g w3 = (Inr pw, w4) \<Longrightarrow>
   generateEmail g fn ln (customDomain d) w4 = (Inl e, w5) \<Longrightarrow>
     generation_body g c d w = (Inl e, w5)"
  by (simp add: generation_body_def)

lemma body_success:
  "generateName g (code c) w = (Inr (fn, ln), w1) \<Longrightarrow> generateBirthday g w1 = (Inr b, w2) \<Longrightarrow>
   generatePhone g c w2 = (Inr ph, w3) \<Longrightarrow> generatePassword g w3 = (Inr pw, w4) \<Longrightarrow>
   generateEmail g fn ln (customDomain d) w4 = (Inr em, w5) \<Longrightarrow>
     generation_body g c d w =
       (Inr \<lparr>firstName = fn, lastName = ln, birthday = b, phone = ph, password = pw,
             email = em\<rparr>, w5)"
  by (simp add: generation_body_def)

text \<open>The wrapped imports behave as the imports and keep the log.\<close>

lemma logged_simps:
  "generateName (logged g) k (w, l) =
     (fst (generateName g k w), (snd (generateName g k w), l @ [CallName k]))"
  "generateBirthday (logged g) (w, l) =
     (fst (generateBirthday g w), (snd (generateBirthday g w), l @ [CallBirthday]))"
  "generatePhone (logged g) c (w, l) =
     (fst (generatePhone g c w), (snd (generatePhone g c w), l @ [CallPhone c]))"
  "generatePassword (logged g) (w, l) =
     (fst (generatePassword g w), (snd (generatePassword g w), l @ [CallPassword]))"
  "generateEmail (logged g) fn ln x (w, l) =
     (fst (generateEmail g fn ln x w), (snd (generateEmail g fn ln x w), l @ [CallEmail fn ln x]))"
  by (simp_all add: logged_def split: prod.splits)

lemma logged_outcome: "outcome (logged g) c d (w, l) = outcome g c d w"
  by (simp add: outcome_def generation_body_def logged_simps split: prod.splits sum.splits)

lemma logged_world: "fst (world_after (logged g) c d (w, l)) = world_after g c d w"
  by (simp add: world_after_def generation_body_def logged_simps split: prod.splits sum.splits)

text \<open>The calls the block performs, by the generator that throws first, if any.\<close>

lemma calls_throw_name:
  "generateName g (code c) w = (Inl e, w1) \<Longrightarrow> calls_made g c d w = [CallName (code c)]"
  by (simp add: calls_made_def world_after_def generation_body_def logged_simps)

lemma calls_throw_birthday:
  "generateName g (code c) w = (Inr (fn, ln), w1) \<Longrightarrow> generateBirthday g w1 = (Inl e, w2) \<Longrightarrow>
     calls_made g c d w = [CallName (code c), CallBirthday]"
  by (simp add: calls_made_def world_after_def generation_body_def logged_simps)

lemma calls_throw_phone:
  "generateName g (code c) w = (Inr (fn, ln), w1) \<Longrightarrow> generateBirthday g w1 = (Inr b, w2) \<Longrightarrow>
   generatePhone g c w2 = (Inl e, w3) \<Longrightarrow>
     calls_made g c d w = [CallName (code c), CallBirthday, CallPhone c]"
  by (simp add: calls_made_def world_after_def generation_body_def logged_simps)

lemma calls_throw_password:
  "generateName g (code c) w = (Inr (fn, ln), w1) \<Longrightarrow> generateBirthday g w1 = (Inr b, w2) \<Longrightarrow>
   generatePhone g c w2 = (Inr ph, w3) \<Longrightarrow> generatePassword g w3 = (Inl e, w4) \<Longrightarrow>
     calls_made g c d w = [CallName (code c), CallBirthday, CallPhone c, CallPassword]"
  by (simp add: calls_made_def world_after_def generation_body_def logged_simps)

lemma calls_reach_email:
  "generateName g (code c) w = (Inr (fn, ln), w1) \<Longrightarrow> generateBirthday g w1 = (Inr b, w2) \<Longrightarrow>
   generatePhone g c w2 = (Inr ph, w3) \<Longrightarrow> generatePassword g w3 = (Inr pw, w4) \<Longrightarrow>
     calls_made g c d w =
       [CallName (code c), CallBirthday, CallPhone c, CallPassword,
        CallEmail fn ln (if d = ''random'' then None else Some d)]"
  by (simp add: calls_made_def world_after_def generation_body_def logged_simps customDomain_def
       split: prod.splits sum.splits)

text \<open>In every case the e-mail composer, if it is invoked at all, receives this domain.\<close>

lemma calls_email_argument:
  "CallEmail fn ln x \<in> set (calls_made g c d w) \<Longrightarrow>
     x = (if d = ''random'' then None else Some d)"
  by (auto simp: calls_made_def world_after_def generation_body_def logged_simps customDomain_def
       split: prod.splits sum.splits if_splits)

lemma demo_success:
  "generation_body demo_lib us ''random'' (n, st) = (Inr demo_record, (n + 5, st))"
  by (simp add: generation_body_def demo_lib_def us_def customDomain_def demo_record_def)

lemma demo_failure:
  "generation_body demo_lib zz d (n, st) = (Inl ConfigError, (Suc n, st))"
  by (simp add: generation_body_def demo_lib_def zz_def)

lemma generate_userInfo: "userInfo (generate cl s) = userInfo s"
  by (simp add: generate_def)

lemma idle_callback_failure:
  "outcome g c d (world s) = Inl e \<Longrightarrow> userInfo (idle_callback g c d s) = userInfo s"
  unfolding outcome_def idle_callback_def
  by (auto split: prod.splits sum.splits)

lemma idle_callback_success:
  "outcome g c d (world s) = Inr r \<Longrightarrow> userInfo (idle_callback g c d s) = r"
  unfolding outcome_def idle_callback_def
  by (auto split: prod.splits sum.splits)

lemma handle_fire_idle:
  "IdleGenerate c d \<in> set (pending s) \<Longrightarrow>
     handle g (Fire (IdleGenerate c d)) s
       = idle_callback g c d (s\<lparr>pending := remove1 (IdleGenerate c d) (pending s)\<rparr>)"
  by (simp add: handle_def run_task_def)

lemma step_fire_idle_failure:
  assumes f: "outcome g c d (world s) = Inl e" and p: "IdleGenerate c d \<in> set (pending s)"
  shows "userInfo (step g (Fire (IdleGenerate c d)) s) = userInfo s"
proof -
  let ?s' = "s\<lparr>pending := remove1 (IdleGenerate c d) (pending s)\<rparr>"
  have h: "handle g (Fire (IdleGenerate c d)) s = idle_callback g c d ?s'"
    using p by (rule handle_fire_idle)
  have "outcome g c d (world ?s') = Inl e" using f by simp
  then have u: "userInfo (idle_callback g c d ?s') = userInfo s"
    using idle_callback_failure[of g c d ?s'] by simp
  have "step g (Fire (IdleGenerate c d)) s = handle g (Fire (IdleGenerate c d)) s"
    by (rule step_quiet) (simp_all add: h u idle_callback_frame)
  then show ?thesis by (simp add: h u)
qed

lemma effect_initial_generation_failure:
  "outcome g (selectedCountry cl) (selectedDomain cl) (world s) = Inl e \<Longrightarrow>
     userInfo (effect_initial_generation g cl s) = userInfo s"
  unfolding outcome_def effect_initial_generation_def
  by (auto split: prod.splits sum.splits)

lemma effects_round_failure:
  assumes "outcome g (selectedCountry cur) (selectedDomain cur) (world cur) = Inl e"
  shows "userInfo (effects_round g prev cur) = userInfo cur"
proof (rule ccontr)
  assume "userInfo (effects_round g prev cur) \<noteq> userInfo cur"
  then show False
    using assms unfolding outcome_def
    by (auto simp: effect_defs split: prod.splits sum.splits if_splits)
qed

lemma outcome_success_steps:
  assumes "outcome g c d w = Inr r"
  shows "\<exists>w1 w2 w3 w4 w5.
           generateName g (code c) w = (Inr (firstName r, lastName r), w1)
           \<and> generateBirthday g w1 = (Inr (birthday r), w2)
           \<and> generatePhone g c w2 = (Inr (phone r), w3)
           \<and> generatePassword g w3 = (Inr (password r), w4)
           \<and> generateEmail g (firstName r) (lastName r) (customDomain d) w4
               = (Inr (email r), w5)"
  using assms unfolding outcome_def generation_body_def
  by (auto split: prod.splits sum.splits)

section \<open>Facts about initialisation and the domain list\<close>

lemma lookup_absent:
  "\<forall>c\<in>set registry. code c \<noteq> k \<Longrightarrow> lookup registry k = Inl NotFoundError"
proof -
  assume "\<forall>c\<in>set registry. code c \<noteq> k"
  then have "find (\<lambda>c. code c = k) registry = None"
    by (auto simp: find_None_iff)
  then show ?thesis by (simp add: lookup_def)
qed

lemma lookup_present:
  "lookup registry k = Inr (Some c) \<Longrightarrow> c \<in> set registry \<and> code c = k"
  by (auto simp: lookup_def find_Some_iff split: option.splits)

lemma initializeApp_absent:
  assumes "\<forall>c. getCountryConfig g k \<noteq> Inr (Some c)" and "country data = Some k"
  shows "selectedCountry (initializeApp g True (FetchData data) s) = selectedCountry s"
    and "isInitialized (initializeApp g True (FetchData data) s)"
  using assms
  by (auto simp: initializeApp_def Let_def split: sum.splits option.splits)

lemma includes_str_sublist: "includes_str s q \<longleftrightarrow> sublist q s"
  by (induction s) (simp_all add: sublist_Cons_right)

section \<open>The claims\<close>

text \<open>
  C1, as the code has it. The calls below are those that the generators themselves
  record when the block of lines 537-543 runs on the wrapped imports. A throw ends the
  block: when the name generator throws, it alone has been invoked; when a later
  generator throws, those before it have been invoked once each, in the order name,
  birthday, phone, password, and none after it. When the first four return, all five
  generators are invoked, each exactly once, the e-mail composer last. The name
  generator receives the code of the selected country, the phone generator the
  selected country, the birthday and password generators nothing, and the e-mail
  composer the \<open>firstName\<close> and \<open>lastName\<close> that the name generator returned, with the
  domain argument of line 541: no other output of a generator is the input of another.
  Recording the calls changes nothing else: on the wrapped imports the block returns
  the same record or error and leaves the same world as on the imports themselves.
\<close>

theorem generators_called_once_in_order:
  "(generateName g (code c) w = (Inl e, w1) \<longrightarrow>
      calls_made g c d w = [CallName (code c)])
   \<and> (generateName g (code c) w = (Inr (fn, ln), w1) \<and> generateBirthday g w1 = (Inl e, w2) \<longrightarrow>
      calls_made g c d w = [CallName (code c), CallBirthday])
   \<and> (generateName g (code c) w = (Inr (fn, ln), w1) \<and> generateBirthday g w1 = (Inr b, w2)
        \<and> generatePhone g c w2 = (Inl e, w3) \<longrightarrow>
      calls_made g c d w = [CallName (code c), CallBirthday, CallPhone c])
   \<and> (generateName g (code c) w = (Inr (fn, ln), w1) \<and> generateBirthday g w1 = (Inr b, w2)
        \<and> generatePhone g c w2 = (Inr ph, w3) \<and> generatePassword g w3 = (Inl e, w4) \<longrightarrow>
      calls_made g c d w = [CallName (code c), CallBirthday, CallPhone c, CallPassword])
   \<and> (generateName g (code c) w = (Inr (fn, ln), w1) \<and> generateBirthday g w1 = (Inr b, w2)
        \<and> generatePhone g c w2 = (Inr ph, w3) \<and> generatePassword g w3 = (Inr pw, w4) \<longrightarrow>
      calls_made g c d w =
        [CallName (code c), CallBirthday, CallPhone c, CallPassword,
         CallEmail fn ln (customDomain d)])
   \<and> generation_body (logged g) c d (w, [])
       = (outcome g c d w, (world_after g c d w, calls_made g c d w))"
proof (intro conjI impI)
  have "fst (generation_body (logged g) c d (w, [])) = outcome g c d w"
    using logged_outcome[of g c d w "[]"] by (simp add: outcome_def)
  moreover have "fst (snd (generation_body (logged g) c d (w, []))) = world_after g c d w"
    using logged_world[of g c d w "[]"] by (simp add: world_after_def)
  moreover have "snd (snd (generation_body (logged g) c d (w, []))) = calls_made g c d w"
    by (simp add: calls_made_def world_after_def)
  ultimately show "generation_body (logged g) c d (w, [])
       = (outcome g c d w, (world_after g c d w, calls_made g c d w))"
    by (metis prod.collapse)
next
  assume "generateName g (code c) w = (Inl e, w1)"
  then show "calls_made g c d w = [CallName (code c)]"
    by (rule calls_throw_name)
next
  assume "generateName g (code c) w = (Inr (fn, ln), w1) \<and> generateBirthday g w1 = (Inl e, w2)"
  then have 1: "generateName g (code c) w = (Inr (fn, ln), w1)"
    and 2: "generateBirthday g w1 = (Inl e, w2)"
    by simp_all
  show "calls_made g c d w = [CallName (code c), CallBirthday]"
    by (rule calls_throw_birthday[OF 1 2])
next
  assume "generateName g (code c) w = (Inr (fn, ln), w1) \<and> generateBirthday g w1 = (Inr b, w2)
        \<and> generatePhone g c w2 = (Inl e, w3)"
  then have 1: "generateName g (code c) w = (Inr (fn, ln), w1)"
    and 2: "generateBirthday g w1 = (Inr b, w2)"
    and 3: "generatePhone g c w2 = (Inl e, w3)"
    by simp_all
  show "calls_made g c d w = [CallName (code c), CallBirthday, CallPhone c]"
    by (rule calls_throw_phone[OF 1 2 3])
next
  assume "generateName g (code c) w = (Inr (fn, ln), w1) \<and> generateBirthday g w1 = (Inr b, w2)
        \<and> generatePhone g c w2 = (Inr ph, w3) \<and> generatePassword g w3 = (Inl e, w4)"
  then have 1: "generateName g (code c) w = (Inr (fn, ln), w1)"
    and 2: "generateBirthday g w1 = (Inr b, w2)"
    and 3: "generatePhone g c w2 = (Inr ph, w3)"
    and 4: "generatePassword g w3 = (Inl e, w4)"
    by simp_all
  show "calls_made g c d w = [CallName (code c), CallBirthday, CallPhone c, CallPassword]"
    by (rule calls_throw_password[OF 1 2 3 4])
next
  assume "generateName g (code c) w = (Inr (fn, ln), w1) \<and> generateBirthday g w1 = (Inr b, w2)
        \<and> generatePhone g c w2 = (Inr ph, w3) \<and> generatePassword g w3 = (Inr pw, w4)"
  then have 1: "generateName g (code c) w = (Inr (fn, ln), w1)"
    and 2: "generateBirthday g w1 = (Inr b, w2)"
    and 3: "generatePhone g c w2 = (Inr ph, w3)"
    and 4: "generatePassword g w3 = (Inr pw, w4)"
    by simp_all
  show "calls_made g c d w =
        [CallName (code c), CallBirthday, CallPhone c, CallPassword,
         CallEmail fn ln (customDomain d)]"
    by (simp add: calls_reach_email[OF 1 2 3 4] customDomain_def)
qed

theorem generators_called_once_in_order_witness:
  "generateName demo_lib (code us) (0, []) = (Inr (''Ann'', ''Lee''), (1, []))
   \<and> generateBirthday demo_lib (1, []) = (Inr ''1990-01-01'', (2, []))
   \<and> generatePhone demo_lib us (2, []) = (Inr ''+1 555 0100'', (3, []))
   \<and> generatePassword demo_lib (3, []) = (Inr ''Pw1!'', (4, []))
   \<and> calls_made demo_lib us ''random'' (0, []) =
       [CallName ''US'', CallBirthday, CallPhone us, CallPassword,
        CallEmail ''Ann'' ''Lee'' None]
   \<and> generatePassword no_password_lib (3, []) = (Inl (Thrown ''no entropy''), (4, []))
   \<and> calls_made no_password_lib us ''random'' (0, []) =
       [CallName ''US'', CallBirthday, CallPhone us, CallPassword]"
proof -
  have n: "generateName demo_lib (code us) (0, []) = (Inr (''Ann'', ''Lee''), (1, []))"
    and b: "generateBirthday demo_lib (1, []) = (Inr ''1990-01-01'', (2, []))"
    and p: "generatePhone demo_lib us (2, []) = (Inr ''+1 555 0100'', (3, []))"
    and q: "generatePassword demo_lib (3, []) = (Inr ''Pw1!'', (4, []))"
    by (simp_all add: demo_lib_def us_def)
  have n': "generateName no_password_lib (code us) (0, []) = (Inr (''Ann'', ''Lee''), (1, []))"
    and b': "generateBirthday no_password_lib (1, []) = (Inr ''1990-01-01'', (2, []))"
    and p': "generatePhone no_password_lib us (2, []) = (Inr ''+1 555 0100'', (3, []))"
    and q': "generatePassword no_password_lib (3, []) = (Inl (Thrown ''no entropy''), (4, []))"
    by (simp_all add: no_password_lib_def demo_lib_def us_def)
  have full: "calls_made demo_lib us ''random'' (0, []) =
       [CallName (code us), CallBirthday, CallPhone us, CallPassword,
        CallEmail ''Ann'' ''Lee'' (customDomain ''random'')]"
    using generators_called_once_in_order[where g = demo_lib and c = us and w = "(0, [])"
        and fn = "''Ann''" and ln = "''Lee''" and ?w1.0 = "(1, [])" and b = "''1990-01-01''"
        and ?w2.0 = "(2, [])" and ph = "''+1 555 0100''" and ?w3.0 = "(3, [])"
        and pw = "''Pw1!''" and ?w4.0 = "(4, [])" and d = "''random''"
        and e = ConfigError] n b p q
    by blast
  have part: "calls_made no_password_lib us ''random'' (0, []) =
       [CallName (code us), CallBirthday, CallPhone us, CallPassword]"
    using generators_called_once_in_order[where g = no_password_lib and c = us
        and w = "(0, [])" and fn = "''Ann''" and ln = "''Lee''" and ?w1.0 = "(1, [])"
        and b = "''1990-01-01''" and ?w2.0 = "(2, [])" and ph = "''+1 555 0100''"
        and ?w3.0 = "(3, [])" and e = "Thrown ''no entropy''" and ?w4.0 = "(4, [])"
        and d = "''random''" and pw = "''Pw1!''"] n' b' p' q'
    by blast
  have cu: "code us = ''US''" by (simp add: us_def)
  from n b p q q' full part show ?thesis
    by (simp add: customDomain_def cu)
qed

text \<open>
  C1 as stated fails: when the name generator throws (here for the country code
  \<open>ZZ\<close>), the request invokes it and no other generator; the birthday generator is
  invoked zero times.
\<close>

theorem generators_called_once_counterexample:
  "generateName demo_lib (code zz) (0, []) = (Inl ConfigError, (1, []))
   \<and> calls_made demo_lib zz ''random'' (0, []) = [CallName ''ZZ'']
   \<and> count_list (calls_made demo_lib zz ''random'' (0, [])) CallBirthday \<noteq> 1"
proof -
  have n: "generateName demo_lib (code zz) (0, []) = (Inl ConfigError, (1, []))"
    by (simp add: demo_lib_def zz_def)
  have "calls_made demo_lib zz ''random'' (0, []) = [CallName (code zz)]"
    using n by (rule calls_throw_name)
  then have c: "calls_made demo_lib zz ''random'' (0, []) = [CallName ''ZZ'']"
    by (simp add: zz_def)
  from n c show ?thesis by simp
qed

text \<open>
  C2. Let any of the five generators throw when the request invokes it, those before it
  having returned. Then the composition is aborted with that error and yields no
  record; the idle callback leaves all six fields of the displayed record as they
  were and reports the one error; so does the whole event that runs the callback, and
  so does the initial-generation effect, alone and within a commit. The handler
  \<open>generate\<close> itself does not touch the record. Conversely the record changes in the
  idle callback only if all five generators returned, and then it is the record of
  their five results.
\<close>

theorem failed_generation_keeps_record:
  "(generateName g (code c) (world s) = (Inl e, w')
      \<or> generateName g (code c) (world s) = (Inr (fn, ln), w1)
          \<and> generateBirthday g w1 = (Inl e, w')
      \<or> generateName g (code c) (world s) = (Inr (fn, ln), w1)
          \<and> generateBirthday g w1 = (Inr b, w2) \<and> generatePhone g c w2 = (Inl e, w')
      \<or> generateName g (code c) (world s) = (Inr (fn, ln), w1)
          \<and> generateBirthday g w1 = (Inr b, w2) \<and> generatePhone g c w2 = (Inr ph, w3)
          \<and> generatePassword g w3 = (Inl e, w')
      \<or> generateName g (code c) (world s) = (Inr (fn, ln), w1)
          \<and> generateBirthday g w1 = (Inr b, w2) \<and> generatePhone g c w2 = (Inr ph, w3)
          \<and> generatePassword g w3 = (Inr pw, w4)
          \<and> generateEmail g fn ln (customDomain d) w4 = (Inl e, w')
    \<longrightarrow>
      generation_body g c d (world s) = (Inl e, w')
      \<and> userInfo (idle_callback g c d s) = userInfo s
      \<and> console (idle_callback g c d s) = console s @ [e]
      \<and> (IdleGenerate c d \<in> set (pending s) \<longrightarrow>
           userInfo (step g (Fire (IdleGenerate c d)) s) = userInfo s)
      \<and> (selectedCountry cl = c \<and> selectedDomain cl = d \<longrightarrow>
           userInfo (effect_initial_generation g cl s) = userInfo s)
      \<and> (selectedCountry s = c \<and> selectedDomain s = d \<longrightarrow>
           userInfo (effects_round g prev s) = userInfo s))
   \<and> userInfo (generate cl s) = userInfo s
   \<and> (userInfo (idle_callback g c d s) \<noteq> userInfo s \<longrightarrow>
        (\<exists>fn' ln' b' ph' pw' em' v1 v2 v3 v4 v5.
            generateName g (code c) (world s) = (Inr (fn', ln'), v1)
            \<and> generateBirthday g v1 = (Inr b', v2)
            \<and> generatePhone g c v2 = (Inr ph', v3)
            \<and> generatePassword g v3 = (Inr pw', v4)
            \<and> generateEmail g fn' ln' (customDomain d) v4 = (Inr em', v5)
            \<and> userInfo (idle_callback g c d s) =
                \<lparr>firstName = fn', lastName = ln', birthday = b', phone = ph',
                 password = pw', email = em'\<rparr>))"
proof (intro conjI)
  show "userInfo (generate cl s) = userInfo s"
    by (rule generate_userInfo)
next
  show "(generateName g (code c) (world s) = (Inl e, w')
      \<or> generateName g (code c) (world s) = (Inr (fn, ln), w1)
          \<and> generateBirthday g w1 = (Inl e, w')
      \<or> generateName g (code c) (world s) = (Inr (fn, ln), w1)
          \<and> generateBirthday g w1 = (Inr b, w2) \<and> generatePhone g c w2 = (Inl e, w')
      \<or> generateName g (code c) (world s) = (Inr (fn, ln), w1)
          \<and> generateBirthday g w1 = (Inr b, w2) \<and> generatePhone g c w2 = (Inr ph, w3)
          \<and> generatePassword g w3 = (Inl e, w')
      \<or> generateName g (code c) (world s) = (Inr (fn, ln), w1)
          \<and> generateBirthday g w1 = (Inr b, w2) \<and> generatePhone g c w2 = (Inr ph, w3)
          \<and> generatePassword g w3 = (Inr pw, w4)
          \<and> generateEmail g fn ln (customDomain d) w4 = (Inl e, w')
    \<longrightarrow>
      generation_body g c d (world s) = (Inl e, w')
      \<and> userInfo (idle_callback g c d s) = userInfo s
      \<and> console (idle_callback g c d s) = console s @ [e]
      \<and> (IdleGenerate c d \<in> set (pending s) \<longrightarrow>
           userInfo (step g (Fire (IdleGenerate c d)) s) = userInfo s)
      \<and> (selectedCountry cl = c \<and> selectedDomain cl = d \<longrightarrow>
           userInfo (effect_initial_generation g cl s) = userInfo s)
      \<and> (selectedCountry s = c \<and> selectedDomain s = d \<longrightarrow>
           userInfo (effects_round g prev s) = userInfo s))"
  proof
    assume throws: "generateName g (code c) (world s) = (Inl e, w')
      \<or> generateName g (code c) (world s) = (Inr (fn, ln), w1)
          \<and> generateBirthday g w1 = (Inl e, w')
      \<or> generateName g (code c) (world s) = (Inr (fn, ln), w1)
          \<and> generateBirthday g w1 = (Inr b, w2) \<and> generatePhone g c w2 = (Inl e, w')
      \<or> generateName g (code c) (world s) = (Inr (fn, ln), w1)
          \<and> generateBirthday g w1 = (Inr b, w2) \<and> generatePhone g c w2 = (Inr ph, w3)
          \<and> generatePassword g w3 = (Inl e, w')
      \<or> generateName g (code c) (world s) = (Inr (fn, ln), w1)
          \<and> generateBirthday g w1 = (Inr b, w2) \<and> generatePhone g c w2 = (Inr ph, w3)
          \<and> generatePassword g w3 = (Inr pw, w4)
          \<and> generateEmail g fn ln (customDomain d) w4 = (Inl e, w')"
    have body: "generation_body g c d (world s) = (Inl e, w')"
      using throws
    proof (elim disjE conjE)
      assume "generateName g (code c) (world s) = (Inl e, w')"
      then show ?thesis by (rule body_throw_name)
    next
      assume "generateName g (code c) (world s) = (Inr (fn, ln), w1)"
        and "generateBirthday g w1 = (Inl e, w')"
      then show ?thesis by (rule body_throw_birthday)
    next
      assume "generateName g (code c) (world s) = (Inr (fn, ln), w1)"
        and "generateBirthday g w1 = (Inr b, w2)" and "generatePhone g c w2 = (Inl e, w')"
      then show ?thesis by (rule body_throw_phone)
    next
      assume "generateName g (code c) (world s) = (Inr (fn, ln), w1)"
        and "generateBirthday g w1 = (Inr b, w2)" and "generatePhone g c w2 = (Inr ph, w3)"
        and "generatePassword g w3 = (Inl e, w')"
      then show ?thesis by (rule body_throw_password)
    next
      assume "generateName g (code c) (world s) = (Inr (fn, ln), w1)"
        and "generateBirthday g w1 = (Inr b, w2)" and "generatePhone g c w2 = (Inr ph, w3)"
        and "generatePassword g w3 = (Inr pw, w4)"
        and "generateEmail g fn ln (customDomain d) w4 = (Inl e, w')"
      then show ?thesis by (rule body_throw_email)
    qed
    then have out: "outcome g c d (world s) = Inl e"
      by (simp add: outcome_def)
    have a: "userInfo (idle_callback g c d s) = userInfo s"
      using out by (rule idle_callback_failure)
    have b: "console (idle_callback g c d s) = console s @ [e]"
      using body by (simp add: idle_callback_def)
    have c: "IdleGenerate c d \<in> set (pending s) \<longrightarrow>
           userInfo (step g (Fire (IdleGenerate c d)) s) = userInfo s"
      using step_fire_idle_failure[OF out] by simp
    have d: "selectedCountry cl = c \<and> selectedDomain cl = d \<longrightarrow>
           userInfo (effect_initial_generation g cl s) = userInfo s"
      using out effect_initial_generation_failure[of g cl s e] by auto
    have e: "selectedCountry s = c \<and> selectedDomain s = d \<longrightarrow>
           userInfo (effects_round g prev s) = userInfo s"
      using out effects_round_failure[of g s e prev] by auto
    from body a b c d e
    show "generation_body g c d (world s) = (Inl e, w')
      \<and> userInfo (idle_callback g c d s) = userInfo s
      \<and> console (idle_callback g c d s) = console s @ [e]
      \<and> (IdleGenerate c d \<in> set (pending s) \<longrightarrow>
           userInfo (step g (Fire (IdleGenerate c d)) s) = userInfo s)
      \<and> (selectedCountry cl = c \<and> selectedDomain cl = d \<longrightarrow>
           userInfo (effect_initial_generation g cl s) = userInfo s)
      \<and> (selectedCountry s = c \<and> selectedDomain s = d \<longrightarrow>
           userInfo (effects_round g prev s) = userInfo s)"
      by (intro conjI)
  qed
next
  show "userInfo (idle_callback g c d s) \<noteq> userInfo s \<longrightarrow>
        (\<exists>fn' ln' b' ph' pw' em' v1 v2 v3 v4 v5.
            generateName g (code c) (world s) = (Inr (fn', ln'), v1)
            \<and> generateBirthday g v1 = (Inr b', v2)
            \<and> generatePhone g c v2 = (Inr ph', v3)
            \<and> generatePassword g v3 = (Inr pw', v4)
            \<and> generateEmail g fn' ln' (customDomain d) v4 = (Inr em', v5)
            \<and> userInfo (idle_callback g c d s) =
                \<lparr>firstName = fn', lastName = ln', birthday = b', phone = ph',
                 password = pw', email = em'\<rparr>)"
  proof
    assume changed: "userInfo (idle_callback g c d s) \<noteq> userInfo s"
    show "\<exists>fn' ln' b' ph' pw' em' v1 v2 v3 v4 v5.
            generateName g (code c) (world s) = (Inr (fn', ln'), v1)
            \<and> generateBirthday g v1 = (Inr b', v2)
            \<and> generatePhone g c v2 = (Inr ph', v3)
            \<and> generatePassword g v3 = (Inr pw', v4)
            \<and> generateEmail g fn' ln' (customDomain d) v4 = (Inr em', v5)
            \<and> userInfo (idle_callback g c d s) =
                \<lparr>firstName = fn', lastName = ln', birthday = b', phone = ph',
                 password = pw', email = em'\<rparr>"
    proof (cases "outcome g c d (world s)")
      case (Inl e')
      then have "userInfo (idle_callback g c d s) = userInfo s"
        by (rule idle_callback_failure)
      with changed show ?thesis by simp
    next
      case (Inr r)
      have u: "userInfo (idle_callback g c d s) = r"
        using Inr by (rule idle_callback_success)
      obtain v1 v2 v3 v4 v5 where
        "generateName g (code c) (world s) = (Inr (firstName r, lastName r), v1)"
        "generateBirthday g v1 = (Inr (birthday r), v2)"
        "generatePhone g c v2 = (Inr (phone r), v3)"
        "generatePassword g v3 = (Inr (password r), v4)"
        "generateEmail g (firstName r) (lastName r) (customDomain d) v4 = (Inr (email r), v5)"
        using outcome_success_steps[OF Inr] by blast
      moreover have "r = \<lparr>firstName = firstName r, lastName = lastName r,
          birthday = birthday r, phone = phone r, password = password r, email = email r\<rparr>"
        by simp
      ultimately show ?thesis using u by (metis (no_types, lifting))
    qed
  qed
qed

theorem failed_generation_keeps_record_witness:
  "generatePassword demo_lib (8, []) = (Inr ''Pw1!'', (9, []))
   \<and> generateEmail demo_lib ''Ann'' ''Lee'' (customDomain ''localhost'') (9, [])
       = (Inl InvalidDomainError, (10, []))
   \<and> generation_body demo_lib us ''localhost''
        (world (demo_page\<lparr>pending := [IdleGenerate us ''localhost'']\<rparr>))
       = (Inl InvalidDomainError, (10, []))
   \<and> userInfo (step demo_lib (Fire (IdleGenerate us ''localhost''))
                 (demo_page\<lparr>pending := [IdleGenerate us ''localhost'']\<rparr>)) = demo_record
   \<and> generatePassword no_password_lib (8, []) = (Inl (Thrown ''no entropy''), (9, []))
   \<and> userInfo (step no_password_lib (Fire (IdleGenerate us ''random''))
                 (demo_page\<lparr>pending := [IdleGenerate us ''random'']\<rparr>)) = demo_record"
proof -
  let ?s = "demo_page\<lparr>pending := [IdleGenerate us ''localhost'']\<rparr>"
  let ?t = "demo_page\<lparr>pending := [IdleGenerate us ''random'']\<rparr>"
  have w: "world demo_page = (5, [])"
    by (simp add: demo_page_def initial_page_def)
  have u: "userInfo ?s = demo_record" "userInfo ?t = demo_record"
    by (simp_all add: demo_page_def)
  have n: "generateName demo_lib (code us) (world ?s) = (Inr (''Ann'', ''Lee''), (6, []))"
    and b: "generateBirthday demo_lib (6, []) = (Inr ''1990-01-01'', (7, []))"
    and p: "generatePhone demo_lib us (7, []) = (Inr ''+1 555 0100'', (8, []))"
    and q: "generatePassword demo_lib (8, []) = (Inr ''Pw1!'', (9, []))"
    and m: "generateEmail demo_lib ''Ann'' ''Lee'' (customDomain ''localhost'') (9, [])
              = (Inl InvalidDomainError, (10, []))"
    by (simp_all add: w demo_lib_def us_def customDomain_def)
  have n': "generateName no_password_lib (code us) (world ?t) = (Inr (''Ann'', ''Lee''), (6, []))"
    and b': "generateBirthday no_password_lib (6, []) = (Inr ''1990-01-01'', (7, []))"
    and p': "generatePhone no_password_lib us (7, []) = (Inr ''+1 555 0100'', (8, []))"
    and q': "generatePassword no_password_lib (8, []) = (Inl (Thrown ''no entropy''), (9, []))"
    by (simp_all add: w no_password_lib_def demo_lib_def us_def)
  have i: "IdleGenerate us ''localhost'' \<in> set (pending ?s)"
    and i': "IdleGenerate us ''random'' \<in> set (pending ?t)"
    by simp_all
  have first: "generation_body demo_lib us ''localhost'' (world ?s)
                 = (Inl InvalidDomainError, (10, []))
      \<and> userInfo (step demo_lib (Fire (IdleGenerate us ''localhost'')) ?s) = userInfo ?s"
    using failed_generation_keeps_record[where g = demo_lib and c = us and s = ?s
        and d = "''localhost''" and e = InvalidDomainError and w' = "(10, [])"
        and fn = "''Ann''" and ln = "''Lee''" and ?w1.0 = "(6, [])" and b = "''1990-01-01''"
        and ?w2.0 = "(7, [])" and ph = "''+1 555 0100''" and ?w3.0 = "(8, [])"
        and pw = "''Pw1!''" and ?w4.0 = "(9, [])" and cl = ?s and prev = ?s] n b p q m i
    by blast
  have second: "userInfo (step no_password_lib (Fire (IdleGenerate us ''random'')) ?t)
                  = userInfo ?t"
    using failed_generation_keeps_record[where g = no_password_lib and c = us and s = ?t
        and d = "''random''" and e = "Thrown ''no entropy''" and w' = "(9, [])"
        and fn = "''Ann''" and ln = "''Lee''" and ?w1.0 = "(6, [])" and b = "''1990-01-01''"
        and ?w2.0 = "(7, [])" and ph = "''+1 555 0100''" and ?w3.0 = "(8, [])"
        and pw = "''Pw1!''" and ?w4.0 = "(9, [])" and cl = ?t and prev = ?t] n' b' p' q' i'
    by blast
  from q m q' first second u show ?thesis
    by (intro conjI) simp_all
qed

text \<open>
  C3. When the first four generators have returned, the e-mail composer is applied to
  the two names and to no explicit domain (\<open>undefined\<close>) if the selected domain is the
  sentinel \<open>random\<close>, and to the selected domain itself, unchanged, otherwise: the
  recorded call has exactly that argument, and the request ends with what the composer
  returns on that argument. In any request, an invocation of the composer has no other
  domain argument.
\<close>

theorem email_composer_domain_argument:
  "(generateName g (code c) w = (Inr (fn, ln), w1) \<and> generateBirthday g w1 = (Inr b, w2)
      \<and> generatePhone g c w2 = (Inr ph, w3) \<and> generatePassword g w3 = (Inr pw, w4) \<longrightarrow>
      calls_made g c d w =
        [CallName (code c), CallBirthday, CallPhone c, CallPassword,
         CallEmail fn ln (if d = ''random'' then None else Some d)]
      \<and> generation_body g c d w =
          (case generateEmail g fn ln (if d = ''random'' then None else Some d) w4 of
             (Inl e, w5) \<Rightarrow> (Inl e, w5)
           | (Inr em, w5) \<Rightarrow>
               (Inr \<lparr>firstName = fn, lastName = ln, birthday = b, phone = ph,
                     password = pw, email = em\<rparr>, w5)))
   \<and> (CallEmail fn' ln' x \<in> set (calls_made g c d w) \<longrightarrow>
        (d = ''random'' \<longrightarrow> x = None) \<and> (d \<noteq> ''random'' \<longrightarrow> x = Some d))"
proof (intro conjI impI)
  assume "generateName g (code c) w = (Inr (fn, ln), w1) \<and> generateBirthday g w1 = (Inr b, w2)
      \<and> generatePhone g c w2 = (Inr ph, w3) \<and> generatePassword g w3 = (Inr pw, w4)"
  then have 1: "generateName g (code c) w = (Inr (fn, ln), w1)"
    and 2: "generateBirthday g w1 = (Inr b, w2)"
    and 3: "generatePhone g c w2 = (Inr ph, w3)"
    and 4: "generatePassword g w3 = (Inr pw, w4)"
    by simp_all
  show "calls_made g c d w =
        [CallName (code c), CallBirthday, CallPhone c, CallPassword,
         CallEmail fn ln (if d = ''random'' then None else Some d)]"
    by (rule calls_reach_email[OF 1 2 3 4])
  show "generation_body g c d w =
          (case generateEmail g fn ln (if d = ''random'' then None else Some d) w4 of
             (Inl e, w5) \<Rightarrow> (Inl e, w5)
           | (Inr em, w5) \<Rightarrow>
               (Inr \<lparr>firstName = fn, lastName = ln, birthday = b, phone = ph,
                     password = pw, email = em\<rparr>, w5))"
    by (rule body_reaches_email[OF 1 2 3 4])
next
  assume "CallEmail fn' ln' x \<in> set (calls_made g c d w)" and "d = ''random''"
  then show "x = None"
    using calls_email_argument by fastforce
next
  assume "CallEmail fn' ln' x \<in> set (calls_made g c d w)" and "d \<noteq> ''random''"
  then show "x = Some d"
    using calls_email_argument by fastforce
qed

theorem email_composer_domain_argument_witness:
  "generatePassword demo_lib (3, []) = (Inr ''Pw1!'', (4, []))
   \<and> calls_made demo_lib us ''random'' (0, []) =
       [CallName ''US'', CallBirthday, CallPhone us, CallPassword,
        CallEmail ''Ann'' ''Lee'' None]
   \<and> calls_made demo_lib us ''example.com'' (0, []) =
       [CallName ''US'', CallBirthday, CallPhone us, CallPassword,
        CallEmail ''Ann'' ''Lee'' (Some ''example.com'')]
   \<and> generation_body demo_lib us ''example.com'' (0, [])
       = (Inr (demo_record\<lparr>email := ''annlee@example.com''\<rparr>), (5, []))"
proof -
  have n: "generateName demo_lib (code us) (0, []) = (Inr (''Ann'', ''Lee''), (1, []))"
    and b: "generateBirthday demo_lib (1, []) = (Inr ''1990-01-01'', (2, []))"
    and p: "generatePhone demo_lib us (2, []) = (Inr ''+1 555 0100'', (3, []))"
    and q: "generatePassword demo_lib (3, []) = (Inr ''Pw1!'', (4, []))"
    by (simp_all add: demo_lib_def us_def)
  note t = email_composer_domain_argument[where g = demo_lib and c = us and w = "(0, [])"
        and fn = "''Ann''" and ln = "''Lee''" and ?w1.0 = "(1, [])" and b = "''1990-01-01''"
        and ?w2.0 = "(2, [])" and ph = "''+1 555 0100''" and ?w3.0 = "(3, [])"
        and pw = "''Pw1!''" and ?w4.0 = "(4, [])" and fn' = "''Ann''" and ln' = "''Lee''"
        and x = None]
  have r: "calls_made demo_lib us ''random'' (0, []) =
       [CallName (code us), CallBirthday, CallPhone us, CallPassword,
        CallEmail ''Ann'' ''Lee'' (if ''random'' = ''random'' then None else Some ''random'')]"
    using t[where d = "''random''"] n b p q by blast
  have x: "calls_made demo_lib us ''example.com'' (0, []) =
       [CallName (code us), CallBirthday, CallPhone us, CallPassword,
        CallEmail ''Ann'' ''Lee''
          (if ''example.com'' = ''random'' then None else Some ''example.com'')]
     \<and> generation_body demo_lib us ''example.com'' (0, []) =
          (case generateEmail demo_lib ''Ann'' ''Lee''
                  (if ''example.com'' = ''random'' then None else Some ''example.com'') (4, []) of
             (Inl e, w5) \<Rightarrow> (Inl e, w5)
           | (Inr em, w5) \<Rightarrow>
               (Inr \<lparr>firstName = ''Ann'', lastName = ''Lee'', birthday = ''1990-01-01'',
                     phone = ''+1 555 0100'', password = ''Pw1!'', email = em\<rparr>, w5))"
    using t[where d = "''example.com''"] n b p q by blast
  have m: "generateEmail demo_lib ''Ann'' ''Lee'' (Some ''example.com'') (4, [])
             = (Inr ''annlee@example.com'', (5, []))"
    by (simp add: demo_lib_def)
  have cu: "code us = ''US''" by (simp add: us_def)
  from q r x m show ?thesis
    by (simp add: cu demo_record_def)
qed

text \<open>
  C4. A generation request that ends without a throw replaces the whole record by the
  record built in that request: \<open>firstName\<close> and \<open>lastName\<close> are what the name generator
  returned, and \<open>birthday\<close>, \<open>phone\<close>, \<open>password\<close> and \<open>email\<close> what the other four returned.
  The new record does not depend on the previous one: two pages that agree on the world
  end with the same record, whatever they displayed before.
\<close>

theorem successful_generation_replaces_record:
  assumes "outcome g c d (world s) = Inr r"
  shows "userInfo (idle_callback g c d s) = r
   \<and> (\<forall>s'. world s' = world s \<longrightarrow> userInfo (idle_callback g c d s') = r)
   \<and> (\<exists>w1 w2 w3 w4.
         fst (generateName g (code c) (world s)) = Inr (firstName r, lastName r)
         \<and> fst (generateBirthday g w1) = Inr (birthday r)
         \<and> fst (generatePhone g c w2) = Inr (phone r)
         \<and> fst (generatePassword g w3) = Inr (password r)
         \<and> fst (generateEmail g (firstName r) (lastName r) (customDomain d) w4)
             = Inr (email r))"
proof -
  have a: "userInfo (idle_callback g c d s') = r" if "world s' = world s" for s' :: "'a page"
    using assms that unfolding outcome_def idle_callback_def
    by (auto split: prod.splits sum.splits)
  have b: "\<exists>w1 w2 w3 w4.
         fst (generateName g (code c) (world s)) = Inr (firstName r, lastName r)
         \<and> fst (generateBirthday g w1) = Inr (birthday r)
         \<and> fst (generatePhone g c w2) = Inr (phone r)
         \<and> fst (generatePassword g w3) = Inr (password r)
         \<and> fst (generateEmail g (firstName r) (lastName r) (customDomain d) w4)
             = Inr (email r)"
    using outcome_success_steps[OF assms] by (metis fst_conv)
  from a[of s] a b show ?thesis by (intro conjI allI impI) simp_all
qed

theorem successful_generation_replaces_record_witness:
  "outcome demo_lib us ''random'' (world (initial_page us (0, []))) = Inr demo_record
   \<and> userInfo (idle_callback demo_lib us ''random'' (initial_page us (0, []))) = demo_record"
proof -
  have h: "outcome demo_lib us ''random'' (world (initial_page us (0, []))) = Inr demo_record"
    by (simp add: outcome_def initial_page_def demo_success)
  from successful_generation_replaces_record[OF h] h show ?thesis by simp
qed




text \<open>
  C6, as the code has it. A generation request sets the generating flag and hands the
  generator calls to the browser as one idle callback: when \<open>generate\<close> returns, the
  flag is set and the callback is pending. Whenever that callback runs, whether the
  generators return or throw, the flag is reset, and it is still reset when the effects
  of that event have run.
\<close>

theorem generating_resolves_in_idle_callback:
  "isGenerating (step g ClickGenerate s)
   \<and> pending (step g ClickGenerate s)
       = pending s @ [IdleGenerate (selectedCountry s) (selectedDomain s)]
   \<and> \<not> isGenerating
         (step g (Fire (IdleGenerate (selectedCountry s) (selectedDomain s)))
            (step g ClickGenerate s))
   \<and> \<not> isGenerating (idle_callback g c d s)"
proof -
  let ?t = "IdleGenerate (selectedCountry s) (selectedDomain s)"
  have h: "handle g ClickGenerate s = generate s s"
    by (simp add: handle_def)
  have s1: "step g ClickGenerate s = generate s s"
    by (rule trans[OF step_quiet h]) (simp_all add: h generate_def)
  have "code (selectedCountry (handle g (Fire ?t) (generate s s)))
          = code (selectedCountry (generate s s))"
    by (simp add: handle_def run_task_def idle_callback_frame generate_def)
  then have "isGenerating (step g (Fire ?t) (generate s s))
               = isGenerating (handle g (Fire ?t) (generate s s))"
    by (rule step_same_code)
  also have "\<dots> = False"
    by (simp add: handle_def run_task_def idle_callback_frame generate_def)
  finally show ?thesis
    by (simp add: s1 idle_callback_frame) (simp add: generate_def)
qed

theorem generating_resolves_in_idle_callback_witness:
  "pending (step demo_lib ClickGenerate demo_page) = [IdleGenerate us ''random'']
   \<and> \<not> isGenerating
         (step demo_lib (Fire (IdleGenerate us ''random'')) (step demo_lib ClickGenerate demo_page))"
  using generating_resolves_in_idle_callback[of demo_lib demo_page us "''random''"]
  by (simp add: demo_page_def initial_page_def)

text \<open>
  C6 as stated fails: the request does not run to completion before \<open>generate\<close>
  returns. After the click the flag is set, the callback is pending, and the record is
  the old one.
\<close>

theorem generating_left_pending_counterexample:
  "isGenerating (step demo_lib ClickGenerate demo_page)
   \<and> pending (step demo_lib ClickGenerate demo_page) = [IdleGenerate us ''random'']
   \<and> userInfo (step demo_lib ClickGenerate demo_page) = demo_record"
  by (simp add: step_quiet handle_def generate_def demo_page_def initial_page_def)

text \<open>
  C7. The registry lookup of the specification fails with \<open>NotFoundError\<close> when the code
  matches no entry. The page handles a lookup that yields no configuration, whether by
  a throw or by \<open>undefined\<close>: when the country code supplied by the geolocation answer
  resolves to no configuration, the selected country is left as it was and
  initialisation completes. With the specification's lookup in place and a code that
  matches no entry, the page that starts at \<open>countries[0]\<close> stays there.
\<close>

theorem absent_country_keeps_default:
  "((\<forall>c\<in>set registry. code c \<noteq> k) \<longrightarrow> lookup registry k = Inl NotFoundError)
   \<and> ((\<forall>c. getCountryConfig g k \<noteq> Inr (Some c)) \<and> country data = Some k \<longrightarrow>
        selectedCountry (step g (InitDone True (FetchData data)) s) = selectedCountry s
        \<and> isInitialized (step g (InitDone True (FetchData data)) s))
   \<and> ((\<forall>c\<in>set registry. code c \<noteq> k) \<and> getCountryConfig g = lookup registry
        \<and> country data = Some k \<longrightarrow>
        selectedCountry (step g (InitDone True (FetchData data)) (initial_page c0 w)) = c0
        \<and> isInitialized (step g (InitDone True (FetchData data)) (initial_page c0 w)))"
proof (intro conjI impI)
  assume "\<forall>c\<in>set registry. code c \<noteq> k"
  then show "lookup registry k = Inl NotFoundError"
    by (rule lookup_absent)
next
  assume "(\<forall>c. getCountryConfig g k \<noteq> Inr (Some c)) \<and> country data = Some k"
  then have n: "\<forall>c. getCountryConfig g k \<noteq> Inr (Some c)" and k: "country data = Some k"
    by simp_all
  show "selectedCountry (step g (InitDone True (FetchData data)) s) = selectedCountry s"
    by (simp add: step_frame handle_def initializeApp_absent[OF n k])
  show "isInitialized (step g (InitDone True (FetchData data)) s)"
    by (simp add: step_frame handle_def initializeApp_absent[OF n k])
next
  assume a: "(\<forall>c\<in>set registry. code c \<noteq> k) \<and> getCountryConfig g = lookup registry
               \<and> country data = Some k"
  then have n: "\<forall>c. getCountryConfig g k \<noteq> Inr (Some c)"
    by (simp add: lookup_absent)
  from a have k: "country data = Some k" by simp
  show "selectedCountry (step g (InitDone True (FetchData data)) (initial_page c0 w)) = c0"
    by (simp add: step_frame handle_def initializeApp_absent[OF n k])
       (simp add: initial_page_def)
  show "isInitialized (step g (InitDone True (FetchData data)) (initial_page c0 w))"
    by (simp add: step_frame handle_def initializeApp_absent[OF n k])
qed

theorem absent_country_keeps_default_witness:
  "find (\<lambda>c. code c = ''FR'') demo_countries = None
   \<and> lookup demo_countries ''FR'' = Inl NotFoundError
   \<and> selectedCountry
        (step (demo_lib\<lparr>getCountryConfig := lookup demo_countries\<rparr>)
           (InitDone True (FetchData \<lparr>ip = Some ''192.0.2.1'', country = Some ''FR'',
                                      accurate = True\<rparr>)) demo_start) = us
   \<and> isInitialized
        (step (demo_lib\<lparr>getCountryConfig := lookup demo_countries\<rparr>)
           (InitDone True (FetchData \<lparr>ip = Some ''192.0.2.1'', country = Some ''FR'',
                                      accurate = True\<rparr>)) demo_start)
   \<and> getCountryConfig demo_lib ''FR'' = Inr None
   \<and> selectedCountry
        (step demo_lib
           (InitDone True (FetchData \<lparr>ip = Some ''192.0.2.1'', country = Some ''FR'',
                                      accurate = True\<rparr>)) demo_start) = us"
proof -
  let ?data = "\<lparr>ip = Some ''192.0.2.1'', country = Some ''FR'', accurate = True\<rparr>"
  let ?g = "demo_lib\<lparr>getCountryConfig := lookup demo_countries\<rparr>"
  have h: "\<forall>c\<in>set demo_countries. code c \<noteq> ''FR''"
    by (simp add: demo_countries_def)
  have f: "find (\<lambda>c. code c = ''FR'') demo_countries = None"
    by (simp add: demo_countries_def)
  have l: "getCountryConfig ?g = lookup demo_countries"
    by simp
  have u: "getCountryConfig demo_lib ''FR'' = Inr None"
    by (simp add: demo_lib_def f)
  have k: "country ?data = Some ''FR''"
    by simp
  have s0: "selectedCountry demo_start = us"
    by (simp add: demo_start_def initial_page_def)
  from absent_country_keeps_default[of demo_countries "''FR''" ?g ?data demo_start us "(0, [])"]
    h l k
  have a: "lookup demo_countries ''FR'' = Inl NotFoundError
           \<and> selectedCountry (step ?g (InitDone True (FetchData ?data)) demo_start) = us
           \<and> isInitialized (step ?g (InitDone True (FetchData ?data)) demo_start)"
    by (simp add: demo_start_def)
  from absent_country_keeps_default[of demo_countries "''FR''" demo_lib ?data demo_start us
      "(0, [])"] u k s0
  have b: "selectedCountry (step demo_lib (InitDone True (FetchData ?data)) demo_start) = us"
    by simp
  from f a u b show ?thesis by (intro conjI) simp_all
qed

text \<open>
  C8. Whatever function the runtime's \<open>toLowerCase\<close> is, and for every query: the
  filtered domain list is the registry's list itself when the query is empty, and
  otherwise consists of exactly the registry's domains that contain the query
  case-insensitively, in registry order; in both cases it is a subsequence of the
  registry's list, and the visible list is a prefix of the filtered list, whatever the
  count.
\<close>

theorem filtered_domains_in_registry_order:
  "(q = [] \<longrightarrow> filteredDomains lower allDomains q = allDomains)
   \<and> (q \<noteq> [] \<longrightarrow>
        filteredDomains lower allDomains q = filter (\<lambda>d. contains_ci lower d q) allDomains)
   \<and> subseq (filteredDomains lower allDomains q) allDomains
   \<and> prefix (visibleDomains lower allDomains q n) (filteredDomains lower allDomains q)"
proof (intro conjI impI)
  assume "q = []"
  then show "filteredDomains lower allDomains q = allDomains"
    by (simp add: filteredDomains_def)
next
  assume "q \<noteq> []"
  then show "filteredDomains lower allDomains q
               = filter (\<lambda>d. contains_ci lower d q) allDomains"
    by (simp add: filteredDomains_def contains_ci_def includes_str_sublist)
next
  show "subseq (filteredDomains lower allDomains q) allDomains"
    by (simp add: filteredDomains_def)
next
  show "prefix (visibleDomains lower allDomains q n) (filteredDomains lower allDomains q)"
    unfolding visibleDomains_def by (rule take_is_prefix)
qed

text \<open>
  An instance: the query is \<open>ECOLE\<close> with a capital E acute (U+00C9) in front, the
  registry holds \<open>ecole.fr\<close> with a small e acute (U+00E9) in front, \<open>gmail.com\<close> and
  \<open>Ecole.org\<close> without accent.
\<close>

theorem filtered_domains_in_registry_order_witness:
  "filter (\<lambda>d. contains_ci latin1_lower d [201, 67, 79, 76, 69])
      [[233, 99, 111, 108, 101, 46, 102, 114], [103, 109, 97, 105, 108, 46, 99, 111, 109],
       [69, 99, 111, 108, 101, 46, 111, 114, 103]]
     = [[233, 99, 111, 108, 101, 46, 102, 114]]
   \<and> filteredDomains latin1_lower
      [[233, 99, 111, 108, 101, 46, 102, 114], [103, 109, 97, 105, 108, 46, 99, 111, 109],
       [69, 99, 111, 108, 101, 46, 111, 114, 103]] [67, 79, 76, 69]
     = [[233, 99, 111, 108, 101, 46, 102, 114], [69, 99, 111, 108, 101, 46, 111, 114, 103]]
   \<and> visibleDomains latin1_lower
      [[233, 99, 111, 108, 101, 46, 102, 114], [103, 109, 97, 105, 108, 46, 99, 111, 109],
       [69, 99, 111, 108, 101, 46, 111, 114, 103]] [67, 79, 76, 69] 1
     = [[233, 99, 111, 108, 101, 46, 102, 114]]
   \<and> filteredDomains latin1_lower
      [[233, 99, 111, 108, 101, 46, 102, 114], [103, 109, 97, 105, 108, 46, 99, 111, 109],
       [69, 99, 111, 108, 101, 46, 111, 114, 103]] []
     = [[233, 99, 111, 108, 101, 46, 102, 114], [103, 109, 97, 105, 108, 46, 99, 111, 109],
        [69, 99, 111, 108, 101, 46, 111, 114, 103]]"
proof -
  let ?all = "[[233, 99, 111, 108, 101, 46, 102, 114], [103, 109, 97, 105, 108, 46, 99, 111, 109],
       [69, 99, 111, 108, 101, 46, 111, 114, 103 :: nat]]"
  have e: "filteredDomains latin1_lower ?all [201, 67, 79, 76, 69]
             = [[233, 99, 111, 108, 101, 46, 102, 114]]"
    by code_simp
  have e2: "filteredDomains latin1_lower ?all [67, 79, 76, 69]
             = [[233, 99, 111, 108, 101, 46, 102, 114], [69, 99, 111, 108, 101, 46, 111, 114, 103]]"
    by code_simp
  have v: "visibleDomains latin1_lower ?all [67, 79, 76, 69] 1
             = [[233, 99, 111, 108, 101, 46, 102, 114]]"
    by code_simp
  have f: "filter (\<lambda>d. contains_ci latin1_lower d [201, 67, 79, 76, 69]) ?all
             = filteredDomains latin1_lower ?all [201, 67, 79, 76, 69]"
    using filtered_domains_in_registry_order[of "[201, 67, 79, 76, 69]" latin1_lower ?all 1]
    by simp
  have g: "filteredDomains latin1_lower ?all [] = ?all"
    using filtered_domains_in_registry_order[of "[]" latin1_lower ?all 1]
    by blast
  show ?thesis
    by (simp only: f e e2 v g)
qed

text \<open>
  C9, as the code has it. While the page shows a record with a non-empty \<open>firstName\<close>
  (or is not initialised), a domain selection changes the selected domain and nothing
  else that matters here: the record, e-mail included, is the same, no generator is
  invoked (the world is the same) and no callback is queued. On an initialised page
  whose record has an empty \<open>firstName\<close>, selecting another domain re-runs the initial
  generation: the block of lines 642-648 runs once, for the selected country and the
  new domain, and its record, if no generator throws, becomes the displayed record. On
  an initialised page that shows a record, selecting a country with another code issues
  one generation request for the new country and the current domain; on an initialised
  page whose record has an empty \<open>firstName\<close>, selecting another country runs the
  generators at once for the new country and, if none throws, replaces the record.
\<close>

theorem domain_select_keeps_record:
  "((\<not> isInitialized s \<or> firstName (userInfo s) \<noteq> []) \<longrightarrow>
       userInfo (step g (SelectDomain d) s) = userInfo s
       \<and> world (step g (SelectDomain d) s) = world s
       \<and> pending (step g (SelectDomain d) s) = pending s
       \<and> selectedDomain (step g (SelectDomain d) s) = d)
   \<and> (isInitialized s \<and> firstName (userInfo s) \<noteq> [] \<and> code c \<noteq> code (selectedCountry s) \<longrightarrow>
       isGenerating (step g (SelectCountry c) s)
       \<and> pending (step g (SelectCountry c) s) = pending s @ [IdleGenerate c (selectedDomain s)])
   \<and> (isInitialized s \<and> firstName (userInfo s) = [] \<and> c \<noteq> selectedCountry s
        \<and> outcome g c (selectedDomain s) (world s) = Inr r \<longrightarrow>
       userInfo (step g (SelectCountry c) s) = r)
   \<and> (isInitialized s \<and> firstName (userInfo s) = [] \<and> d \<noteq> selectedDomain s \<longrightarrow>
       (generation_body g (selectedCountry s) d (world s) = (Inr r', w') \<longrightarrow>
          userInfo (step g (SelectDomain d) s) = r' \<and> world (step g (SelectDomain d) s) = w')
       \<and> (generation_body g (selectedCountry s) d (world s) = (Inl e, w') \<longrightarrow>
          userInfo (step g (SelectDomain d) s) = userInfo s
          \<and> world (step g (SelectDomain d) s) = w'))"
proof (intro conjI impI)
  assume a: "\<not> isInitialized s \<or> firstName (userInfo s) \<noteq> []"
  have h: "handle g (SelectDomain d) s = handleDomainSelect d s"
    by (simp add: handle_def)
  have r1: "effects_round g s (handleDomainSelect d s) = handleDomainSelect d s"
    using a by (auto simp: handleDomainSelect_def effect_defs)
  have r2: "effects_round g (handleDomainSelect d s) (handleDomainSelect d s)
              = handleDomainSelect d s"
    by (rule effects_round_quiet) simp_all
  have st: "step g (SelectDomain d) s = handleDomainSelect d s"
    by (simp add: step_unfold h r1 r2)
  show "userInfo (step g (SelectDomain d) s) = userInfo s"
    by (simp add: st handleDomainSelect_def)
  show "world (step g (SelectDomain d) s) = world s"
    by (simp add: st handleDomainSelect_def)
  show "pending (step g (SelectDomain d) s) = pending s"
    by (simp add: st handleDomainSelect_def)
  show "selectedDomain (step g (SelectDomain d) s) = d"
    by (simp add: st handleDomainSelect_def)
next
  assume a: "isInitialized s \<and> firstName (userInfo s) \<noteq> []
               \<and> code c \<noteq> code (selectedCountry s)"
  let ?s1 = "handleCountrySelect c s"
  have h: "handle g (SelectCountry c) s = ?s1"
    by (simp add: handle_def)
  have r1: "effects_round g s ?s1 = generate ?s1 ?s1"
    using a by (auto simp: handleCountrySelect_def effect_defs)
  have r2: "effects_round g ?s1 (generate ?s1 ?s1) = generate ?s1 ?s1"
    by (rule effects_round_quiet) (simp_all add: generate_def)
  have st: "step g (SelectCountry c) s = generate ?s1 ?s1"
    by (simp add: step_unfold h r1 r2)
  show "isGenerating (step g (SelectCountry c) s)"
    by (simp add: st generate_def)
  show "pending (step g (SelectCountry c) s) = pending s @ [IdleGenerate c (selectedDomain s)]"
    by (simp add: st generate_def handleCountrySelect_def)
next
  assume a: "isInitialized s \<and> firstName (userInfo s) = [] \<and> c \<noteq> selectedCountry s
               \<and> outcome g c (selectedDomain s) (world s) = Inr r"
  let ?s1 = "handleCountrySelect c s"
  have h: "handle g (SelectCountry c) s = ?s1"
    by (simp add: handle_def)
  have "userInfo (effects_round g s ?s1) = r"
    using a unfolding outcome_def
    by (auto simp: handleCountrySelect_def effect_defs split: prod.splits sum.splits)
  then show "userInfo (step g (SelectCountry c) s) = r"
    by (simp add: step_unfold h effects_round_second_userInfo)
next
  assume a: "isInitialized s \<and> firstName (userInfo s) = [] \<and> d \<noteq> selectedDomain s"
    and b: "generation_body g (selectedCountry s) d (world s) = (Inr r', w')"
  let ?s1 = "handleDomainSelect d s"
  have h: "handle g (SelectDomain d) s = ?s1"
    by (simp add: handle_def)
  have "userInfo (effects_round g s ?s1) = r' \<and> world (effects_round g s ?s1) = w'"
    using a b by (auto simp: handleDomainSelect_def effect_defs)
  then show "userInfo (step g (SelectDomain d) s) = r'"
    and "world (step g (SelectDomain d) s) = w'"
    by (simp_all add: step_unfold h effects_round_second_userInfo effects_round_second_world)
next
  assume a: "isInitialized s \<and> firstName (userInfo s) = [] \<and> d \<noteq> selectedDomain s"
    and b: "generation_body g (selectedCountry s) d (world s) = (Inl e, w')"
  let ?s1 = "handleDomainSelect d s"
  have h: "handle g (SelectDomain d) s = ?s1"
    by (simp add: handle_def)
  have "userInfo (effects_round g s ?s1) = userInfo s \<and> world (effects_round g s ?s1) = w'"
    using a b by (auto simp: handleDomainSelect_def effect_defs)
  then show "userInfo (step g (SelectDomain d) s) = userInfo s"
    and "world (step g (SelectDomain d) s) = w'"
    by (simp_all add: step_unfold h effects_round_second_userInfo effects_round_second_world)
qed

theorem domain_select_keeps_record_witness:
  "userInfo (step demo_lib (SelectDomain ''example.com'') demo_page) = demo_record
   \<and> world (step demo_lib (SelectDomain ''example.com'') demo_page) = (5, [])
   \<and> pending (step demo_lib (SelectCountry de) demo_page) = [IdleGenerate de ''random'']
   \<and> userInfo (step demo_lib (SelectCountry de) (demo_page\<lparr>userInfo := emptyUserInfo\<rparr>))
       = demo_record
   \<and> userInfo (step demo_lib (SelectDomain ''example.com'')
                 (demo_page\<lparr>userInfo := emptyUserInfo\<rparr>))
       = demo_record\<lparr>email := ''annlee@example.com''\<rparr>
   \<and> world (step demo_lib (SelectDomain ''example.com'')
              (demo_page\<lparr>userInfo := emptyUserInfo\<rparr>)) = (10, [])"
proof -
  have i: "isInitialized demo_page" "firstName (userInfo demo_page) \<noteq> []"
    "code de \<noteq> code (selectedCountry demo_page)"
    by (simp_all add: demo_page_def demo_record_def initial_page_def de_def us_def)
  let ?e = "demo_page\<lparr>userInfo := emptyUserInfo\<rparr>"
  have j: "isInitialized ?e" "firstName (userInfo ?e) = []" "de \<noteq> selectedCountry ?e"
    "''example.com'' \<noteq> selectedDomain ?e"
    by (simp_all add: demo_page_def emptyUserInfo_def initial_page_def de_def us_def)
  have o: "outcome demo_lib de (selectedDomain ?e) (world ?e) = Inr demo_record"
    by (simp add: outcome_def generation_body_def demo_lib_def de_def customDomain_def
          demo_record_def demo_page_def initial_page_def)
  have x: "generation_body demo_lib (selectedCountry ?e) ''example.com'' (world ?e)
             = (Inr (demo_record\<lparr>email := ''annlee@example.com''\<rparr>), (10, []))"
    by (simp add: generation_body_def demo_lib_def us_def customDomain_def
          demo_record_def demo_page_def initial_page_def)
  have p: "pending demo_page = []" "selectedDomain demo_page = ''random''"
    "userInfo demo_page = demo_record" "world demo_page = (5, [])"
    by (simp_all add: demo_page_def initial_page_def)
  note t = domain_select_keeps_record[where g = demo_lib and d = "''example.com''" and c = de
      and r = demo_record and r' = "demo_record\<lparr>email := ''annlee@example.com''\<rparr>"
      and w' = "(10, [])" and e = ConfigError]
  from t[where s = demo_page] i p
  have a: "userInfo (step demo_lib (SelectDomain ''example.com'') demo_page) = demo_record
           \<and> world (step demo_lib (SelectDomain ''example.com'') demo_page) = (5, [])
           \<and> pending (step demo_lib (SelectCountry de) demo_page) = [IdleGenerate de ''random'']"
    by simp
  from t[where s = ?e] j o
  have b: "userInfo (step demo_lib (SelectCountry de) ?e) = demo_record"
    by blast
  from t[where s = ?e] j x
  have c: "userInfo (step demo_lib (SelectDomain ''example.com'') ?e)
             = demo_record\<lparr>email := ''annlee@example.com''\<rparr>
           \<and> world (step demo_lib (SelectDomain ''example.com'') ?e) = (10, [])"
    by blast
  from a b c show ?thesis by simp
qed

text \<open>
  C9 as stated fails on an initialised page whose record has an empty \<open>firstName\<close>,
  and the page gets there by events it offers. In the first history the name generator
  throws on the first draw only: the generation at initialisation fails and the record
  stays empty; the sheet is opened and a domain of the registry selected; with no
  generation request, all six fields are filled. In the second the name generator
  returns an empty first name: the record generated at initialisation is displayed, and
  the same selection replaces it, e-mail included.
\<close>

theorem domain_select_regenerates_counterexample:
  "feasible flaky_lib [InitDone True FetchRejected, OpenDomainSheet,
                       SelectDomain ''example.com''] demo_start
   \<and> userInfo (run flaky_lib [InitDone True FetchRejected, OpenDomainSheet] demo_start)
     = emptyUserInfo
   \<and> userInfo (run flaky_lib [InitDone True FetchRejected, OpenDomainSheet,
                              SelectDomain ''example.com''] demo_start)
     = demo_record\<lparr>email := ''annlee@example.com''\<rparr>
   \<and> feasible mononym_lib [InitDone True FetchRejected, OpenDomainSheet,
                           SelectDomain ''example.com''] demo_start
   \<and> userInfo (run mononym_lib [InitDone True FetchRejected, OpenDomainSheet] demo_start)
     = demo_record\<lparr>firstName := [], lastName := ''Suharto''\<rparr>
   \<and> userInfo (run mononym_lib [InitDone True FetchRejected, OpenDomainSheet,
                                SelectDomain ''example.com''] demo_start)
     = demo_record\<lparr>firstName := [], lastName := ''Suharto'',
                    email := ''annlee@example.com''\<rparr>"
  by code_simp

text \<open>
  C10, where the code departs from it. Take a page that shows a record with a
  non-empty e-mail, not saved and with no save in progress. A save request, the save
  timer, a generation request, a second save request made before the idle callback has
  run, and the second save timer: every one of these events is offered when it
  happens, and at the end \<open>addIdentity\<close> has been applied twice to the same record and
  e-mail. \<open>generate\<close> clears the saved flag although the e-mail has not changed, so the
  guard of \<open>handleSaveIdentity\<close> lets the second request through.
\<close>

theorem same_email_saved_twice:
  assumes "saveStatus s \<noteq> Saving" and "\<not> isSaved s" and "email (userInfo s) \<noteq> []"
  shows "feasible g
           [ClickSave, Fire (SaveTimer (userInfo s) (selectedCountry s)), ClickGenerate,
            ClickSave, Fire (SaveTimer (userInfo s) (selectedCountry s))] s
    \<and> userInfo (run g
           [ClickSave, Fire (SaveTimer (userInfo s) (selectedCountry s)), ClickGenerate,
            ClickSave] s) = userInfo s
    \<and> world (run g
           [ClickSave, Fire (SaveTimer (userInfo s) (selectedCountry s)), ClickGenerate,
            ClickSave, Fire (SaveTimer (userInfo s) (selectedCountry s))] s)
        = addIdentity g (savedIdentity (userInfo s) (selectedCountry s))
            (addIdentity g (savedIdentity (userInfo s) (selectedCountry s)) (world s))"
proof -
  let ?t = "SaveTimer (userInfo s) (selectedCountry s)"
  let ?x = "savedIdentity (userInfo s) (selectedCountry s)"
  define s1 where "s1 = s\<lparr>saveStatus := Saving, pending := pending s @ [?t]\<rparr>"
  define s2 where "s2 = save_timer g (userInfo s) (selectedCountry s)
                          (s1\<lparr>pending := remove1 ?t (pending s1)\<rparr>)"
  define s3 where "s3 = generate s2 s2"
  define s4 where "s4 = s3\<lparr>saveStatus := Saving, pending := pending s3 @ [?t]\<rparr>"
  define s5 where "s5 = save_timer g (userInfo s) (selectedCountry s)
                          (s4\<lparr>pending := remove1 ?t (pending s4)\<rparr>)"
  have h1: "handle g ClickSave s = s1"
    using assms by (simp add: handle_def handleSaveIdentity_def s1_def)
  have e1: "step g ClickSave s = s1"
    by (rule trans[OF step_quiet h1]) (simp_all add: h1 s1_def)
  have m1: "?t \<in> set (pending s1)"
    by (simp add: s1_def)
  have h2: "handle g (Fire ?t) s1 = s2"
    using m1 by (simp add: handle_def run_task_def s2_def)
  have e2: "step g (Fire ?t) s1 = s2"
    by (rule trans[OF step_quiet h2]) (simp_all add: h2 s2_def save_timer_def)
  have f2: "userInfo s2 = userInfo s" "selectedCountry s2 = selectedCountry s"
    "world s2 = addIdentity g ?x (world s)"
    by (simp_all add: s2_def save_timer_def s1_def)
  have h3: "handle g ClickGenerate s2 = s3"
    by (simp add: handle_def s3_def)
  have e3: "step g ClickGenerate s2 = s3"
    by (rule trans[OF step_quiet h3]) (simp_all add: h3 s3_def generate_def)
  have f3: "userInfo s3 = userInfo s" "selectedCountry s3 = selectedCountry s"
    "world s3 = addIdentity g ?x (world s)" "saveStatus s3 = SaveIdle" "\<not> isSaved s3"
    by (simp_all add: s3_def generate_def f2)
  have h4: "handle g ClickSave s3 = s4"
    using assms by (simp add: handle_def handleSaveIdentity_def s4_def f3)
  have e4: "step g ClickSave s3 = s4"
    by (rule trans[OF step_quiet h4]) (simp_all add: h4 s4_def)
  have f4: "userInfo s4 = userInfo s" "world s4 = addIdentity g ?x (world s)"
    by (simp_all add: s4_def f3)
  have m4: "?t \<in> set (pending s4)"
    by (simp add: s4_def)
  have h5: "handle g (Fire ?t) s4 = s5"
    using m4 by (simp add: handle_def run_task_def s5_def)
  have e5: "step g (Fire ?t) s4 = s5"
    by (rule trans[OF step_quiet h5]) (simp_all add: h5 s5_def save_timer_def)
  have f5: "world s5 = addIdentity g ?x (addIdentity g ?x (world s))"
    by (simp add: s5_def save_timer_def f4)
  have a: "feasible g [ClickSave, Fire ?t, ClickGenerate, ClickSave, Fire ?t] s"
    by (simp add: offered_def e1 e2 e3 e4 m1 m4)
  have b: "userInfo (run g [ClickSave, Fire ?t, ClickGenerate, ClickSave] s) = userInfo s"
    by (simp add: e1 e2 e3 e4 f4)
  have c: "world (run g [ClickSave, Fire ?t, ClickGenerate, ClickSave, Fire ?t] s)
             = addIdentity g ?x (addIdentity g ?x (world s))"
    by (simp add: e1 e2 e3 e4 e5 f5)
  from a b c show ?thesis by (intro conjI)
qed

text \<open>
  The same at a concrete page: the store ends with the same address twice. It does so
  too, with no second request racing the idle callback, when the callback runs in
  between and a generator throws: the record and its e-mail stay, the flag stays
  cleared, and the next save request goes through.
\<close>

theorem same_email_saved_twice_witness:
  "feasible demo_lib
     [ClickSave, Fire (SaveTimer demo_record us), ClickGenerate,
      ClickSave, Fire (SaveTimer demo_record us)] demo_page
   \<and> world (run demo_lib
        [ClickSave, Fire (SaveTimer demo_record us), ClickGenerate,
         ClickSave, Fire (SaveTimer demo_record us)] demo_page)
       = (5, [''annlee@yopmail.com'', ''annlee@yopmail.com''])
   \<and> feasible no_password_lib
        [ClickSave, Fire (SaveTimer demo_record us), ClickGenerate,
         Fire (IdleGenerate us ''random''), ClickSave, Fire (SaveTimer demo_record us)]
        demo_page
   \<and> snd (world (run no_password_lib
        [ClickSave, Fire (SaveTimer demo_record us), ClickGenerate,
         Fire (IdleGenerate us ''random''), ClickSave, Fire (SaveTimer demo_record us)]
        demo_page))
       = [''annlee@yopmail.com'', ''annlee@yopmail.com'']"
proof -
  have h: "saveStatus demo_page \<noteq> Saving" "\<not> isSaved demo_page"
    "email (userInfo demo_page) \<noteq> []"
    by (simp_all add: demo_page_def initial_page_def demo_record_def)
  have u: "userInfo demo_page = demo_record" "selectedCountry demo_page = us"
    "world demo_page = (5, [])"
    by (simp_all add: demo_page_def initial_page_def)
  have x: "addIdentity demo_lib (savedIdentity demo_record us)
             (addIdentity demo_lib (savedIdentity demo_record us) (5, []))
           = (5, [''annlee@yopmail.com'', ''annlee@yopmail.com''])"
    by (simp add: demo_lib_def savedIdentity_def demo_record_def)
  have first: "feasible demo_lib
     [ClickSave, Fire (SaveTimer demo_record us), ClickGenerate,
      ClickSave, Fire (SaveTimer demo_record us)] demo_page
   \<and> world (run demo_lib
        [ClickSave, Fire (SaveTimer demo_record us), ClickGenerate,
         ClickSave, Fire (SaveTimer demo_record us)] demo_page)
       = (5, [''annlee@yopmail.com'', ''annlee@yopmail.com''])"
    using same_email_saved_twice[OF h, of demo_lib] by (simp only: u x)
  have second: "feasible no_password_lib
        [ClickSave, Fire (SaveTimer demo_record us), ClickGenerate,
         Fire (IdleGenerate us ''random''), ClickSave, Fire (SaveTimer demo_record us)]
        demo_page
   \<and> snd (world (run no_password_lib
        [ClickSave, Fire (SaveTimer demo_record us), ClickGenerate,
         Fire (IdleGenerate us ''random''), ClickSave, Fire (SaveTimer demo_record us)]
        demo_page))
       = [''annlee@yopmail.com'', ''annlee@yopmail.com'']"
    by code_simp
  from first second show ?thesis by simp
qed

end
